theory Spec2Isabelle
  imports Complex_Main
begin

section \<open>Identifiers, scopes and the access tables\<close>

text \<open>
  Identifiers are UUID strings. The store compares them as values of type \<open>uuid\<close>, which
  reads hexadecimal digits in either case: a parameter written \<open>$n::uuid\<close> in a query is
  the lower-case form of the string the route passes (\<open>uuid_cast\<close>). The routes only pass
  strings that their schemas accepted as UUIDs, so the cast never fails here.
\<close>

type_synonym uuid = string

definition lower_char :: "char \<Rightarrow> char" where
  "lower_char c =
     (let n = (of_char c :: nat) in if 65 \<le> n \<and> n \<le> 90 then char_of (n + 32) else c)"

definition lower :: "string \<Rightarrow> string" where
  "lower s = map lower_char s"

definition uuid_cast :: "string \<Rightarrow> uuid" where
  "uuid_cast s = lower s"

text \<open>\<open>scope: 'read' | 'write' | 'admin'\<close>, the type of the column in \<open>src/routes/me.ts\<close>.\<close>

datatype scope = Read | Write | Admin

datatype tx_type = credit | debit

record 'n bank_transaction =
  bt_id :: uuid
  bt_account_id :: uuid
  bt_tx_date :: string
  bt_description :: "string option"
  bt_amount :: 'n
  bt_type :: tx_type
  bt_category_id :: "uuid option"

text \<open>
  The tables the routes read and write. \<open>'n\<close> is the type of numbers: the definitions
  use only the operations the routes apply to them, so every statement below holds for
  IEEE doubles as for exact decimals.
\<close>

record 'n db =
  user_roles :: "(uuid \<times> uuid) list"
  roles :: "(uuid \<times> string) list"
  role_fund_access :: "(uuid \<times> uuid \<times> scope) list"
  bank_transactions :: "'n bank_transaction list"
  transaction_allocations :: "(uuid \<times> uuid \<times> 'n) list"

text \<open>
  The pairs (fund, scope) a user reaches through the roles it holds:
  \<open>app.user_roles ur join app.role_fund_access rfa on rfa.role_id = ur.role_id
  where ur.user_id = $1\<close>.
\<close>

definition role_grants :: "'n db \<Rightarrow> uuid \<Rightarrow> (uuid \<times> scope) list" where
  "role_grants d u =
     concat (map (\<lambda>ur. if fst ur = u
                         then map snd (filter (\<lambda>rfa. fst rfa = snd ur) (role_fund_access d))
                         else [])
                 (user_roles d))"

definition highest :: "scope list \<Rightarrow> scope" where
  "highest ss = (if Admin \<in> set ss then Admin else if Write \<in> set ss then Write else Read)"

text \<open>
  Modelled from the spec: the view \<open>app.v_effective_fund_access\<close> is not in the source
  tree. The spec gives it as the mapping (user, fund) to the highest scope granted
  through any role the user holds: one row per pair that has a grant.
\<close>

definition v_effective_fund_access :: "'n db \<Rightarrow> (uuid \<times> uuid \<times> scope) list" where
  "v_effective_fund_access d =
     concat (map (\<lambda>u. map (\<lambda>f. (u, f, highest (map snd (filter (\<lambda>g. fst g = f) (role_grants d u)))))
                           (remdups (map fst (role_grants d u))))
                 (remdups (map fst (user_roles d))))"

section \<open>Connections, statements and transactions\<close>

text \<open>
  A thrown error: one the routes build (\<open>e.status\<close>, \<open>e.message\<close>), one the
  database driver raises when the store refuses a statement, or the one \<open>parse\<close> of a
  schema throws.
\<close>

datatype err = HttpError nat string | DbError | ZodError

text \<open>The statements the routes of the ledger send, with their parameters.\<close>

datatype 'n stmt =
    Begin
  | Commit
  | Rollback
  | SetCurrentUser uuid
  | SelectWritableFundCount uuid "string list"
  | InsertBankTransaction uuid string "string option" 'n tx_type "uuid option"
  | InsertAllocation uuid string 'n
  | UpdateBankTransaction uuid "uuid option" "string option" "string option" "'n option"
      "tx_type option" "uuid option"
  | DeleteAllocations uuid

text \<open>
  What the source tree does not hold of the store: its constraints (foreign keys, checks,
  triggers), as the predicate telling which writing statement it refuses in which state,
  and the default that names a new row.
\<close>

record 'n store =
  refuses :: "'n db \<Rightarrow> 'n stmt \<Rightarrow> bool"
  gen_random_uuid :: "'n db \<Rightarrow> uuid"

text \<open>
  A pooled connection: the committed tables, the working copy of the open transaction
  (if one is open), and every statement sent so far.
\<close>

record 'n conn =
  persisted :: "'n db"
  txn :: "'n db option"
  sent :: "'n stmt list"

definition connect :: "'n db \<Rightarrow> 'n conn" where
  "connect d = \<lparr>persisted = d, txn = None, sent = []\<rparr>"

definition visible :: "'n conn \<Rightarrow> 'n db" where
  "visible c = (case txn c of Some w \<Rightarrow> w | None \<Rightarrow> persisted c)"

definition log_stmt :: "'n stmt \<Rightarrow> 'n conn \<Rightarrow> 'n conn" where
  "log_stmt s c = c\<lparr>sent := sent c @ [s]\<rparr>"

text \<open>\<open>begin\<close>: opens a transaction; inside one it only warns.\<close>

definition begin_txn :: "'n conn \<Rightarrow> 'n conn" where
  "begin_txn c =
     (let c1 = log_stmt Begin c in
      case txn c1 of None \<Rightarrow> c1\<lparr>txn := Some (persisted c1)\<rparr> | Some w \<Rightarrow> c1)"

text \<open>\<open>rollback\<close>: drops the working copy; outside a transaction it only warns.\<close>

definition rollback_txn :: "'n conn \<Rightarrow> 'n conn" where
  "rollback_txn c = (log_stmt Rollback c)\<lparr>txn := None\<rparr>"

text \<open>
  \<open>commit\<close>: makes the working copy the committed tables. A deferred constraint can refuse
  it, and then the store rolls the transaction back and the driver throws.
\<close>

definition commit_txn :: "'n store \<Rightarrow> 'n conn \<Rightarrow> (err + unit) \<times> 'n conn" where
  "commit_txn st c =
     (let c1 = log_stmt Commit c in
      case txn c1 of
        None \<Rightarrow> (Inr (), c1)
      | Some w \<Rightarrow>
          if refuses st w Commit then (Inl DbError, c1\<lparr>txn := None\<rparr>)
          else (Inr (), c1\<lparr>persisted := w, txn := None\<rparr>))"

text \<open>A writing statement: refused by the store, or applied to the visible tables.\<close>

definition apply_db :: "('n db \<Rightarrow> 'n db) \<Rightarrow> 'n conn \<Rightarrow> 'n conn" where
  "apply_db f c =
     (case txn c of Some w \<Rightarrow> c\<lparr>txn := Some (f w)\<rparr> | None \<Rightarrow> c\<lparr>persisted := f (persisted c)\<rparr>)"

definition exec_write :: "'n store \<Rightarrow> 'n stmt \<Rightarrow> ('n db \<Rightarrow> 'n db) \<Rightarrow> 'n conn \<Rightarrow> (err + unit) \<times> 'n conn" where
  "exec_write st s f c =
     (let c1 = log_stmt s c in
      if refuses st (visible c) s then (Inl DbError, c1) else (Inr (), apply_db f c1))"

text \<open>
  \<open>withUser\<close> of \<open>src/db.ts\<close>: a connection of the pool, \<open>begin\<close>, the marker of the current
  user, the body, \<open>commit\<close>; any throw is answered by \<open>rollback\<close> and thrown on.
\<close>

definition withUser ::
  "'n store \<Rightarrow> uuid \<Rightarrow> ('n conn \<Rightarrow> (err + 'a) \<times> 'n conn) \<Rightarrow> 'n db \<Rightarrow> (err + 'a) \<times> 'n conn" where
  "withUser st userId fn d =
     (let c = connect d;
          c = begin_txn c;
          c = log_stmt (SetCurrentUser userId) c
      in case fn c of
           (Inl e, c1) \<Rightarrow> (Inl e, rollback_txn c1)
         | (Inr out, c1) \<Rightarrow>
             (case commit_txn st c1 of
                (Inl e, c2) \<Rightarrow> (Inl e, rollback_txn c2)
              | (Inr u, c2) \<Rightarrow> (Inr out, c2)))"

section \<open>The fund-scope gate\<close>

text \<open>
  \<open>select count(distinct fund_id)::int as cnt from app.v_effective_fund_access
  where user_id = $1 and fund_id = any($2::uuid[]) and scope in ('write','admin')\<close>
\<close>

definition writable_fund_count :: "'n db \<Rightarrow> uuid \<Rightarrow> string list \<Rightarrow> nat" where
  "writable_fund_count d userId fundIds =
     length (remdups (map (\<lambda>r. fst (snd r))
       (filter (\<lambda>r. fst r = userId \<and> fst (snd r) \<in> set (map uuid_cast fundIds)
                     \<and> snd (snd r) \<in> {Write, Admin})
               (v_effective_fund_access d))))"

definition select_writable_fund_count :: "uuid \<Rightarrow> string list \<Rightarrow> 'n conn \<Rightarrow> nat \<times> 'n conn" where
  "select_writable_fund_count userId fundIds c =
     (writable_fund_count (visible c) userId fundIds,
      log_stmt (SelectWritableFundCount userId fundIds) c)"

text \<open>\<open>assertWriteForFunds\<close> of \<open>src/permissions.ts\<close>.\<close>

definition assertWriteForFunds :: "uuid \<Rightarrow> string list \<Rightarrow> 'n conn \<Rightarrow> (err + unit) \<times> 'n conn" where
  "assertWriteForFunds userId fundIds c =
     (if length fundIds = 0 then (Inr (), c)
      else
        let (cnt, c1) = select_writable_fund_count userId fundIds c;
            ok = (cnt = length fundIds)
        in if \<not> ok
           then (Inl (HttpError 403 ''forbidden: missing write/admin on one or more funds''), c1)
           else (Inr (), c1))"

text \<open>
  In the words of the spec: the requested funds on which the user has write or admin
  scope.
\<close>

definition writable_funds :: "'n db \<Rightarrow> uuid \<Rightarrow> string set \<Rightarrow> uuid set" where
  "writable_funds d userId F =
     {f \<in> uuid_cast ` F. \<exists>s \<in> {Write, Admin}. (userId, f, s) \<in> set (v_effective_fund_access d)}"

section \<open>Creating and patching a transaction\<close>

text \<open>
  A handler is a function of the connection that returns what it returned or threw
  together with the connection as it left it; \<open>await a; b\<close> is \<open>bindE a (\<lambda>_. b)\<close>.
\<close>

definition bindE :: "('s \<Rightarrow> ('e + 'a) \<times> 's) \<Rightarrow> ('a \<Rightarrow> 's \<Rightarrow> ('e + 'b) \<times> 's) \<Rightarrow> 's \<Rightarrow> ('e + 'b) \<times> 's" where
  "bindE m f s = (case m s of (Inl e, s1) \<Rightarrow> (Inl e, s1) | (Inr a, s1) \<Rightarrow> f a s1)"

text \<open>
  The body after \<open>TxInput.safeParse\<close>: \<open>fund_id\<close> and \<open>allocations\<close> are optional, an
  allocation is a pair of a fund and a ratio.
\<close>

record 'n TxInput =
  ti_account_id :: string
  ti_tx_date :: string
  ti_description :: "string option"
  ti_amount :: 'n
  ti_type :: tx_type
  ti_fund_id :: "string option"
  ti_category_id :: "string option"
  ti_allocations :: "(string \<times> 'n) list option"

text \<open>The body after \<open>TxInput.partial().safeParse\<close>: every field is optional.\<close>

record 'n TxPatch =
  tp_account_id :: "string option"
  tp_tx_date :: "string option"
  tp_description :: "string option"
  tp_amount :: "'n option"
  tp_type :: "tx_type option"
  tp_fund_id :: "string option"
  tp_category_id :: "string option"
  tp_allocations :: "(string \<times> 'n) list option"

text \<open>\<open>if (s)\<close> on an optional string: \<open>undefined\<close> and the empty string are falsy.\<close>

fun truthy :: "string option \<Rightarrow> bool" where
  "truthy None = False"
| "truthy (Some s) = (s \<noteq> [])"

text \<open>\<open>[...new Set(xs)]\<close>: the first occurrence of each element, in order.\<close>

fun uniq :: "'a list \<Rightarrow> 'a list" where
  "uniq [] = []"
| "uniq (x # xs) = x # uniq (filter (\<lambda>y. y \<noteq> x) xs)"

text \<open>\<open>allocations.reduce((acc, a) => acc + Number(a.ratio), 0)\<close>\<close>

definition ratio_sum :: "(string \<times> 'n::{zero,plus}) list \<Rightarrow> 'n" where
  "ratio_sum allocations = foldl (\<lambda>acc a. acc + snd a) 0 allocations"

text \<open>\<open>Math.abs(sum - 1) > 1e-9\<close>; \<open>tol\<close> is the number the literal \<open>1e-9\<close> denotes.\<close>

definition ratio_sum_off :: "'n \<Rightarrow> 'n::{one,minus,abs,ord} \<Rightarrow> bool" where
  "ratio_sum_off tol s \<longleftrightarrow> \<bar>s - 1\<bar> > tol"

text \<open>The allocations \<open>POST /transactions\<close> builds from the body.\<close>

definition effective_allocations :: "'n::one TxInput \<Rightarrow> (string \<times> 'n) list" where
  "effective_allocations input =
     (let allocations = (case ti_allocations input of Some a \<Rightarrow> a | None \<Rightarrow> []) in
      if length allocations = 0 \<and> truthy (ti_fund_id input)
      then [(the (ti_fund_id input), 1)]
      else allocations)"

definition insert_bank_transaction ::
  "'n store \<Rightarrow> string \<Rightarrow> string \<Rightarrow> string option \<Rightarrow> 'n \<Rightarrow> tx_type \<Rightarrow> string option
     \<Rightarrow> 'n conn \<Rightarrow> (err + uuid) \<times> 'n conn" where
  "insert_bank_transaction st account_id tx_date description amount ty category_id c =
     (let new = uuid_cast (gen_random_uuid st (visible c)) in
      bindE
        (exec_write st (InsertBankTransaction account_id tx_date description amount ty category_id)
           (\<lambda>d. d\<lparr>bank_transactions := bank_transactions d @
                   [\<lparr>bt_id = new, bt_account_id = uuid_cast account_id, bt_tx_date = tx_date,
                     bt_description = description, bt_amount = amount, bt_type = ty,
                     bt_category_id = map_option uuid_cast category_id\<rparr>]\<rparr>))
        (\<lambda>_ c1. (Inr new, c1)) c)"

definition insert_allocation ::
  "'n store \<Rightarrow> uuid \<Rightarrow> string \<Rightarrow> 'n \<Rightarrow> 'n conn \<Rightarrow> (err + unit) \<times> 'n conn" where
  "insert_allocation st txId fund_id ratio =
     exec_write st (InsertAllocation txId fund_id ratio)
       (\<lambda>d. d\<lparr>transaction_allocations := transaction_allocations d @
               [(uuid_cast txId, uuid_cast fund_id, ratio)]\<rparr>)"

text \<open>\<open>for (const a of allocations) await c.query(insert ...)\<close>\<close>

fun insert_allocations ::
  "'n store \<Rightarrow> uuid \<Rightarrow> (string \<times> 'n) list \<Rightarrow> 'n conn \<Rightarrow> (err + unit) \<times> 'n conn" where
  "insert_allocations st txId [] c = (Inr (), c)"
| "insert_allocations st txId (a # as) c =
     bindE (insert_allocation st txId (fst a) (snd a)) (\<lambda>_. insert_allocations st txId as) c"

text \<open>
  \<open>POST /transactions\<close>. \<open>parsed\<close> is the result of \<open>TxInput.safeParse\<close>: the body, or the
  message of the first issue (if it has one). A throw before \<open>withUser\<close> leaves the
  connection never taken: no statement sent.
\<close>

definition post_transaction ::
  "'n store \<Rightarrow> 'n::{zero,one,plus,minus,abs,ord} \<Rightarrow> uuid \<Rightarrow> string option + 'n TxInput \<Rightarrow> 'n db
     \<Rightarrow> (err + uuid) \<times> 'n conn" where
  "post_transaction st tol userId parsed d =
     (case parsed of
        Inl m \<Rightarrow> (Inl (HttpError 400 (case m of Some s \<Rightarrow> s | None \<Rightarrow> ''invalid body'')), connect d)
      | Inr input \<Rightarrow>
          let allocations = effective_allocations input in
          if length allocations = 0
          then (Inl (HttpError 400 ''a fund is required (use fund_id or allocations)''), connect d)
          else if ratio_sum_off tol (ratio_sum allocations)
          then (Inl (HttpError 400 ''allocations ratio sum must be 1''), connect d)
          else
            let fundIds = uniq (map fst allocations) in
            withUser st userId
              (bindE (assertWriteForFunds userId fundIds) (\<lambda>_.
               bindE (insert_bank_transaction st (ti_account_id input) (ti_tx_date input)
                        (ti_description input) (ti_amount input) (ti_type input)
                        (ti_category_id input)) (\<lambda>txId.
               bindE (insert_allocations st txId allocations) (\<lambda>_ c. (Inr txId, c))))) d)"

text \<open>
  \<open>update app.bank_transactions set account_id = coalesce($2, account_id), ...
  where id = $1\<close>
\<close>

definition update_bank_transaction ::
  "'n store \<Rightarrow> string \<Rightarrow> 'n TxPatch \<Rightarrow> 'n conn \<Rightarrow> (err + unit) \<times> 'n conn" where
  "update_bank_transaction st txId body =
     exec_write st
       (UpdateBankTransaction txId (tp_account_id body) (tp_tx_date body) (tp_description body)
          (tp_amount body) (tp_type body) (tp_category_id body))
       (\<lambda>d. d\<lparr>bank_transactions :=
               map (\<lambda>r. if bt_id r = uuid_cast txId
                         then r\<lparr>bt_account_id := (case tp_account_id body of Some a \<Rightarrow> uuid_cast a | None \<Rightarrow> bt_account_id r),
                                bt_tx_date := (case tp_tx_date body of Some x \<Rightarrow> x | None \<Rightarrow> bt_tx_date r),
                                bt_description := (case tp_description body of Some x \<Rightarrow> Some x | None \<Rightarrow> bt_description r),
                                bt_amount := (case tp_amount body of Some x \<Rightarrow> x | None \<Rightarrow> bt_amount r),
                                bt_type := (case tp_type body of Some x \<Rightarrow> x | None \<Rightarrow> bt_type r),
                                bt_category_id := (case tp_category_id body of Some x \<Rightarrow> Some (uuid_cast x) | None \<Rightarrow> bt_category_id r)\<rparr>
                         else r)
                   (bank_transactions d)\<rparr>)"

text \<open>\<open>delete from app.transaction_allocations where transaction_id = $1\<close>\<close>

definition delete_allocations :: "'n store \<Rightarrow> string \<Rightarrow> 'n conn \<Rightarrow> (err + unit) \<times> 'n conn" where
  "delete_allocations st txId =
     exec_write st (DeleteAllocations txId)
       (\<lambda>d. d\<lparr>transaction_allocations :=
               filter (\<lambda>r. fst r \<noteq> uuid_cast txId) (transaction_allocations d)\<rparr>)"

text \<open>The allocations \<open>PATCH /transactions/:id\<close> prepares: none, or the new set.\<close>

definition patch_new_alloc ::
  "'n::{zero,one,plus,minus,abs,ord} \<Rightarrow> 'n TxPatch \<Rightarrow> err + (string \<times> 'n) list option" where
  "patch_new_alloc tol body =
     (if truthy (tp_fund_id body) then Inr (Some [(the (tp_fund_id body), 1)])
      else case tp_allocations body of
        Some allocations \<Rightarrow>
          if length allocations = 0 then Inl (HttpError 400 ''allocations cannot be empty'')
          else if ratio_sum_off tol (ratio_sum allocations)
          then Inl (HttpError 400 ''allocations ratio sum must be 1'')
          else Inr (Some allocations)
      | None \<Rightarrow> Inr None)"

text \<open>The function \<open>PATCH /transactions/:id\<close> passes to \<open>withUser\<close>.\<close>

definition patch_body ::
  "'n store \<Rightarrow> 'n::{zero,one,plus,minus,abs,ord} \<Rightarrow> uuid \<Rightarrow> string \<Rightarrow> 'n TxPatch \<Rightarrow> 'n conn
     \<Rightarrow> (err + unit) \<times> 'n conn" where
  "patch_body st tol userId txId body =
     bindE (\<lambda>c. (patch_new_alloc tol body, c)) (\<lambda>newAlloc.
     bindE (case newAlloc of
              Some na \<Rightarrow> assertWriteForFunds userId (uniq (map fst na))
            | None \<Rightarrow> (\<lambda>c. (Inr (), c))) (\<lambda>_.
     bindE (update_bank_transaction st txId body) (\<lambda>_.
       (case newAlloc of
          Some na \<Rightarrow> bindE (delete_allocations st txId) (\<lambda>_. insert_allocations st txId na)
        | None \<Rightarrow> (\<lambda>c. (Inr (), c))))))"

text \<open>
  \<open>PATCH /transactions/:id\<close>. \<open>is_uuid\<close> is the test of \<open>z.string().uuid()\<close>, whose
  \<open>parse\<close> throws a \<open>ZodError\<close>.
\<close>

definition patch_transaction ::
  "'n store \<Rightarrow> 'n::{zero,one,plus,minus,abs,ord} \<Rightarrow> (string \<Rightarrow> bool) \<Rightarrow> uuid \<Rightarrow> string
     \<Rightarrow> string option + 'n TxPatch \<Rightarrow> 'n db \<Rightarrow> (err + unit) \<times> 'n conn" where
  "patch_transaction st tol is_uuid userId txId parsed d =
     (if \<not> is_uuid txId then (Inl ZodError, connect d)
      else case parsed of
        Inl m \<Rightarrow> (Inl (HttpError 400 (case m of Some s \<Rightarrow> s | None \<Rightarrow> ''invalid body'')), connect d)
      | Inr body \<Rightarrow> withUser st userId (patch_body st tol userId txId body) d)"

section \<open>The loose parser of amounts\<close>

text \<open>
  A string is the list of its code units. What the parser takes from the runtime is a
  parameter: \<open>Number.isFinite\<close>, \<open>String\<close> of a number and \<open>Number\<close> of a string.
\<close>

record 'n js =
  isFinite :: "'n \<Rightarrow> bool"
  String_of :: "'n \<Rightarrow> string"
  Number_of :: "string \<Rightarrow> 'n"

text \<open>The values the parser tells apart: \<open>null\<close> or \<open>undefined\<close>, a number, a string.\<close>

datatype 'n jsval = JNull | JNum 'n | JStr string

definition is_digit :: "char \<Rightarrow> bool" where
  "is_digit c \<longleftrightarrow> 48 \<le> (of_char c :: nat) \<and> (of_char c :: nat) \<le> 57"

text \<open>White space and line ends among the code units below 256, which \<open>trim\<close> removes.\<close>

definition is_space :: "char \<Rightarrow> bool" where
  "is_space c \<longleftrightarrow> (of_char c :: nat) \<in> {9, 10, 11, 12, 13, 32, 160}"

definition trim :: "string \<Rightarrow> string" where
  "trim s = rev (dropWhile is_space (rev (dropWhile is_space s)))"

text \<open>The class \<open>[\d.,-]\<close>.\<close>

definition kept :: "char \<Rightarrow> bool" where
  "kept c \<longleftrightarrow> is_digit c \<or> c = CHR ''.'' \<or> c = CHR '','' \<or> c = CHR ''-''"

text \<open>\<open>s.lastIndexOf(c)\<close>: the greatest index of \<open>c\<close>, or -1.\<close>

definition lastIndexOf :: "string \<Rightarrow> char \<Rightarrow> int" where
  "lastIndexOf s c =
     fst (foldl (\<lambda>(found, i) x. (if x = c then i else found, i + 1)) (- 1, 0) s)"

text \<open>\<open>s.replace(/c/g, '')\<close> and \<open>s.replace(c, d)\<close>, which replaces the first \<open>c\<close> only.\<close>

definition remove_all :: "char \<Rightarrow> string \<Rightarrow> string" where
  "remove_all c s = filter (\<lambda>x. x \<noteq> c) s"

fun replace_first :: "char \<Rightarrow> char \<Rightarrow> string \<Rightarrow> string" where
  "replace_first c d [] = []"
| "replace_first c d (x # xs) = (if x = c then d # xs else x # replace_first c d xs)"

text \<open>
  The string \<open>parseAmountLoose\<close> hands to \<open>Number\<close>, from the trimmed string: the
  characters outside \<open>[\d.,-]\<close> removed, then the separators resolved.
\<close>

definition amount_literal :: "string \<Rightarrow> string" where
  "amount_literal s0 =
     (let s = filter kept s0;
          hasDot = (CHR ''.'' \<in> set s);
          hasComma = (CHR '','' \<in> set s)
      in if hasDot \<and> hasComma then
           (if lastIndexOf s (CHR '','') > lastIndexOf s (CHR ''.'')
            then replace_first (CHR '','') (CHR ''.'') (remove_all (CHR ''.'') s)
            else remove_all (CHR '','') s)
         else if hasComma then replace_first (CHR '','') (CHR ''.'') (remove_all (CHR ''.'') s)
         else remove_all (CHR '','') s)"

definition parseAmountLoose :: "'n js \<Rightarrow> 'n jsval \<Rightarrow> 'n option" where
  "parseAmountLoose js v =
     (case v of
        JNull \<Rightarrow> None
      | _ \<Rightarrow>
        if (case v of JNum x \<Rightarrow> isFinite js x | _ \<Rightarrow> False)
        then (case v of JNum x \<Rightarrow> Some x | _ \<Rightarrow> None)
        else
          let s = trim (case v of JStr t \<Rightarrow> t | JNum x \<Rightarrow> String_of js x | JNull \<Rightarrow> [])
          in if s = [] then None
             else let n = Number_of js (amount_literal s)
                  in if isFinite js n then Some n else None)"

text \<open>
  A reading of the runtime for examples: numbers are exact rationals or \<open>NaN\<close>, and
  \<open>Number\<close> reads the strings the parser can hand it (digits, \<open>.\<close>, \<open>,\<close>, \<open>-\<close>): the empty
  string is 0, an optional sign before digits with an optional point is its decimal value,
  anything else is \<open>NaN\<close>. It neither rounds nor overflows.
\<close>

datatype jsnum = Num rat | NaN

definition digits_value :: "string \<Rightarrow> int" where
  "digits_value s = foldl (\<lambda>a c. 10 * a + (of_char c - 48)) 0 s"

definition unsigned_decimal :: "string \<Rightarrow> rat option" where
  "unsigned_decimal s =
     (let ip = takeWhile is_digit s; r = dropWhile is_digit s in
      if r = [] then (if ip = [] then None else Some (of_int (digits_value ip)))
      else if hd r = CHR ''.'' \<and> list_all is_digit (tl r) \<and> (ip \<noteq> [] \<or> tl r \<noteq> [])
      then Some (of_int (digits_value ip) + of_int (digits_value (tl r)) / 10 ^ length (tl r))
      else None)"

definition Number_ref :: "string \<Rightarrow> jsnum" where
  "Number_ref s =
     (if s = [] then Num 0
      else case (if hd s = CHR ''-'' then map_option uminus (unsigned_decimal (tl s))
                 else unsigned_decimal s) of
             None \<Rightarrow> NaN
           | Some q \<Rightarrow> Num q)"

definition js_ref :: "jsnum js" where
  "js_ref = \<lparr>isFinite = (\<lambda>n. n \<noteq> NaN), String_of = (\<lambda>n. ''NaN''), Number_of = Number_ref\<rparr>"

text \<open>The order, the absolute value and the constants 0 and 1 of the reading.\<close>

instantiation jsnum :: "{zero,one,abs,ord}"
begin

definition zero_jsnum :: jsnum where "zero_jsnum = Num 0"

definition one_jsnum :: jsnum where "one_jsnum = Num 1"

fun abs_jsnum :: "jsnum \<Rightarrow> jsnum" where
  "abs_jsnum (Num q) = Num \<bar>q\<bar>"
| "abs_jsnum NaN = NaN"

fun less_jsnum :: "jsnum \<Rightarrow> jsnum \<Rightarrow> bool" where
  "less_jsnum (Num a) (Num b) = (a < b)"
| "less_jsnum _ _ = False"

fun less_eq_jsnum :: "jsnum \<Rightarrow> jsnum \<Rightarrow> bool" where
  "less_eq_jsnum (Num a) (Num b) = (a \<le> b)"
| "less_eq_jsnum _ _ = False"

instance ..

end

section \<open>The import of a CSV file\<close>

text \<open>
  A record of the CSV parser (\<open>columns: true\<close>): the cells of a line under the names of
  the header. \<open>raw.k\<close> is \<open>field raw k\<close>; a name the header lacks gives \<open>undefined\<close>.
\<close>

type_synonym raw = "(string \<times> string) list"

definition field :: "raw \<Rightarrow> string \<Rightarrow> string option" where
  "field r k = map_of r k"

text \<open>The schema \<open>Row\<close> and the value a row parses to.\<close>

record 'n Row =
  row_account_id :: string
  row_date :: string
  row_description :: "string option"
  row_amount :: 'n
  row_type :: tx_type
  row_category_id :: "string option"
  row_fund_id :: string

text \<open>
  What the schema library brings: its test for a UUID, and the message of an issue of each
  kind.
\<close>

datatype zod_code = Required | Invalid_uuid | Invalid_regex | Not_positive | Invalid_enum

record zod =
  uuid_ok :: "string \<Rightarrow> bool"
  message_of :: "zod_code \<Rightarrow> string"

text \<open>\<open>/^\d{4}-\d{2}-\d{2}$/\<close>\<close>

definition date_shape :: "string \<Rightarrow> bool" where
  "date_shape s \<longleftrightarrow> length s = 10 \<and>
     (\<forall>i < 10. if i = 4 \<or> i = 7 then s ! i = CHR ''-'' else is_digit (s ! i))"

definition check_uuid :: "zod \<Rightarrow> string \<Rightarrow> string option \<Rightarrow> (string \<times> zod_code) list" where
  "check_uuid z path v =
     (case v of None \<Rightarrow> [(path, Required)]
      | Some x \<Rightarrow> if uuid_ok z x then [] else [(path, Invalid_uuid)])"

text \<open>
  \<open>Row.safeParse\<close> of the object the route builds from a record and the amount it
  parsed: the issues, in the order of the fields, or the row.
\<close>

definition Row_safeParse ::
  "zod \<Rightarrow> raw \<Rightarrow> 'n::{zero,ord} option \<Rightarrow> (string \<times> zod_code) list + 'n Row" where
  "Row_safeParse z r amount =
     (let account_id = field r ''account_id'';
          date = (case field r ''date'' of Some x \<Rightarrow> Some x | None \<Rightarrow> field r ''tx_date'');
          description = field r ''description'';
          ty = lower (case field r ''type'' of Some x \<Rightarrow> x | None \<Rightarrow> []);
          category_id = (case field r ''category_id'' of
                           Some x \<Rightarrow> if x = [] then None else Some x
                         | None \<Rightarrow> None);
          fund_id = field r ''fund_id'';
          issues =
            check_uuid z ''account_id'' account_id
            @ (case date of None \<Rightarrow> [(''date'', Required)]
               | Some x \<Rightarrow> if date_shape x then [] else [(''date'', Invalid_regex)])
            @ (case amount of None \<Rightarrow> [(''amount'', Required)]
               | Some a \<Rightarrow> if a > 0 then [] else [(''amount'', Not_positive)])
            @ (if ty = ''credit'' \<or> ty = ''debit'' then [] else [(''type'', Invalid_enum)])
            @ (case category_id of None \<Rightarrow> []
               | Some x \<Rightarrow> if uuid_ok z x then [] else [(''category_id'', Invalid_uuid)])
            @ check_uuid z ''fund_id'' fund_id
      in case (account_id, date, amount, fund_id) of
           (Some a, Some dt, Some am, Some f) \<Rightarrow>
             if issues = []
             then Inr \<lparr>row_account_id = a, row_date = dt,
                       row_description = map_option trim description, row_amount = am,
                       row_type = (if ty = ''credit'' then credit else debit),
                       row_category_id = category_id, row_fund_id = f\<rparr>
             else Inl issues
         | _ \<Rightarrow> Inl issues)"

text \<open>\<open>xs.join(sep)\<close>\<close>

fun join :: "string \<Rightarrow> string list \<Rightarrow> string" where
  "join sep [] = []"
| "join sep [x] = x"
| "join sep (x # y # ys) = x @ sep @ join sep (y # ys)"

text \<open>
  The message of a failing row: the errors of the form (a record has none: every issue
  is under a field), or the issues as \<open>path: message\<close>, or a fixed text.
\<close>

definition row_error_message :: "zod \<Rightarrow> (string \<times> zod_code) list \<Rightarrow> string" where
  "row_error_message z issues =
     (let formErrors = join ''; '' [];
          fieldErrors = join ''; '' (map (\<lambda>x. fst x @ '': '' @ message_of z (snd x)) issues)
      in if formErrors \<noteq> [] then formErrors
         else if fieldErrors \<noteq> [] then fieldErrors
         else ''Fila inv'' @ [CHR 0xC3, CHR 0xA1] @ ''lida'')"

text \<open>What the route does with one record: the amount, then the schema.\<close>

definition parse_row ::
  "'n::{zero,ord} js \<Rightarrow> zod \<Rightarrow> raw \<Rightarrow> (string \<times> zod_code) list + 'n Row" where
  "parse_row js z r =
     (let amount = parseAmountLoose js (case field r ''amount'' of Some s \<Rightarrow> JStr s | None \<Rightarrow> JNull)
      in Row_safeParse z r amount)"

text \<open>
  \<open>rawRows.forEach((raw, i) => ...)\<close>, from index \<open>i\<close>: the rows that parse, and for each
  that does not its line \<open>i + 2\<close>, its message and the record.
\<close>

fun validate_rows ::
  "'n::{zero,ord} js \<Rightarrow> zod \<Rightarrow> nat \<Rightarrow> raw list \<Rightarrow> 'n Row list \<times> (nat \<times> string \<times> raw) list" where
  "validate_rows js z i [] = ([], [])"
| "validate_rows js z i (r # rest) =
     (let (rows, errors) = validate_rows js z (i + 1) rest
      in case parse_row js z r of
           Inr data \<Rightarrow> (data # rows, errors)
         | Inl issues \<Rightarrow> (rows, (i + 2, row_error_message z issues, r) # errors))"

text \<open>\<open>for (const r of rows)\<close>: the transaction with its amount unsigned, then its allocation.\<close>

fun import_rows ::
  "'n::{one,abs} store \<Rightarrow> 'n Row list \<Rightarrow> 'n conn \<Rightarrow> (err + unit) \<times> 'n conn" where
  "import_rows st [] c = (Inr (), c)"
| "import_rows st (r # rs) c =
     bindE (insert_bank_transaction st (row_account_id r) (row_date r) (row_description r)
              \<bar>row_amount r\<bar> (row_type r) (row_category_id r)) (\<lambda>tx.
     bindE (insert_allocation st tx (row_fund_id r) 1) (\<lambda>_.
     import_rows st rs)) c"

text \<open>
  The function the route passes to \<open>withUser\<close>: \<open>begin\<close>, the rows and \<open>commit\<close>; a throw
  is answered by \<open>rollback\<close> and thrown on.
\<close>

definition import_body ::
  "'n::{one,abs} store \<Rightarrow> 'n Row list \<Rightarrow> 'n conn \<Rightarrow> (err + unit) \<times> 'n conn" where
  "import_body st rows c =
     (case bindE (import_rows st rows) (\<lambda>_. commit_txn st) (begin_txn c) of
        (Inl e, c1) \<Rightarrow> (Inl e, rollback_txn c1)
      | (Inr u, c1) \<Rightarrow> (Inr u, c1))"

text \<open>The answers of the route: a status and a body.\<close>

datatype import_answer =
    ErrorMessage string
  | Thrown err
  | InvalidRows "(nat \<times> string \<times> raw) list" nat
  | Valid nat
  | Inserted nat

text \<open>
  \<open>POST /transactions/import\<close>. \<open>file\<close> is the upload: none, or what the CSV parser made
  of it (its error, or the records).
\<close>

definition import_transactions ::
  "'n::{zero,one,abs,ord} js \<Rightarrow> zod \<Rightarrow> 'n store \<Rightarrow> uuid \<Rightarrow> bool \<Rightarrow> (string + raw list) option
     \<Rightarrow> 'n db \<Rightarrow> (nat \<times> import_answer) \<times> 'n conn" where
  "import_transactions js z st userId dryRun file d =
     (case file of
        None \<Rightarrow>
          ((400, ErrorMessage (''Falta archivo CSV (campo '' @ [CHR 0x22] @ ''file'' @ [CHR 0x22] @ '')'')),
           connect d)
      | Some (Inl m) \<Rightarrow> ((500, ErrorMessage m), connect d)
      | Some (Inr rawRows) \<Rightarrow>
          let (rows, errors) = validate_rows js z 0 rawRows in
          if length errors \<noteq> 0 then ((422, InvalidRows errors (length rows)), connect d)
          else if dryRun then ((200, Valid (length rows)), connect d)
          else case withUser st userId (import_body st rows) d of
                 (Inl e, c) \<Rightarrow> ((500, Thrown e), c)
               | (Inr u, c) \<Rightarrow> ((200, Inserted (length rows)), c))"

section \<open>The list queries and the access clause\<close>

text \<open>
  \<open>select exists (select 1 from app.user_roles ur join app.roles r on r.id = ur.role_id
  where ur.user_id = $1 and lower(r.name) in ('admin','owner'))\<close>, the same in every
  list query. \<open>lower\<close> is taken on the letters A to Z, the only ones that can give a
  letter of these two names.
\<close>

definition is_admin :: "'n db \<Rightarrow> uuid \<Rightarrow> bool" where
  "is_admin d userId =
     list_ex (\<lambda>ur. fst ur = userId \<and>
                list_ex (\<lambda>r. fst r = snd ur \<and> lower (snd r) \<in> {''admin'', ''owner''}) (roles d))
             (user_roles d)"

text \<open>
  \<open>select distinct rfa.fund_id from app.user_roles ur join app.role_fund_access rfa
  on rfa.role_id = ur.role_id where ur.user_id = $1 and rfa.scope in ('read','write','admin')\<close>
\<close>

definition allowed_funds :: "'n db \<Rightarrow> uuid \<Rightarrow> uuid list" where
  "allowed_funds d userId =
     remdups (map fst (filter (\<lambda>g. snd g \<in> {Read, Write, Admin}) (role_grants d userId)))"

text \<open>In the words of the spec: the funds granted to the user through some role.\<close>

definition granted_funds :: "'n db \<Rightarrow> uuid \<Rightarrow> uuid set" where
  "granted_funds d userId = {f. \<exists>s. (f, s) \<in> set (role_grants d userId)}"

text \<open>\<open>limit n offset m\<close>\<close>

definition page :: "nat \<Rightarrow> nat \<Rightarrow> 'a list \<Rightarrow> 'a list" where
  "page n m xs = take n (drop m xs)"

text \<open>
  The tables of the documents. Of each row the columns the access clause reads are
  named; the optional filters a request adds to the \<open>where\<close> clause are a predicate on the
  row (\<open>flt\<close>), and the \<open>order by\<close> is a key of the row (\<open>key\<close>; rows of equal key keep the
  order of the table).
\<close>

record factura =
  f_id :: uuid
  f_fund_id :: uuid
  f_client_id :: uuid
  f_numero :: string
  f_monto_total :: rat

record payment =
  p_id :: uuid
  p_fund_id :: uuid
  p_provider_id :: uuid
  p_monto_total :: rat

record liquidacion =
  l_id :: uuid
  l_name :: string
  l_client_id :: "uuid option"
  l_fund_id :: uuid
  l_impositivo :: "rat option"
  l_ingreso_banco :: "rat option"

text \<open>A line of a settlement: the settlement, the detail and the amount.\<close>

type_synonym line = "uuid \<times> string \<times> rat"

record documents =
  facturas :: "factura list"
  payments :: "payment list"
  liquidaciones :: "liquidacion list"
  liquidacion_gastos :: "line list"
  liquidacion_trabajos :: "line list"
  liquidacion_saldos_positivos :: "line list"
  liquidacion_saldos_negativos :: "line list"

text \<open>
  A row of the view \<open>app.v_tx_allocated\<close>, one per allocation of a transaction. The view
  is not in the source tree: its rows are an argument of the query.
\<close>

record tx_allocated =
  va_transaction_id :: uuid
  va_tx_date :: string
  va_account_id :: uuid
  va_fund_id :: uuid

text \<open>
  \<open>GET /transactions\<close>: \<open>app.v_tx_allocated v left join app.v_effective_fund_access efa
  on efa.fund_id = v.fund_id and efa.user_id = $1 cross join is_admin ia
  where (ia.ok = true or efa.user_id is not null) and ...\<close>. The other left joins are on
  primary keys and add columns only.
\<close>

definition transactions_joined ::
  "'n db \<Rightarrow> tx_allocated list \<Rightarrow> uuid \<Rightarrow> (tx_allocated \<times> (uuid \<times> uuid \<times> scope) option) list" where
  "transactions_joined d v userId =
     concat (map (\<lambda>r. case filter (\<lambda>e. fst (snd e) = va_fund_id r \<and> fst e = userId)
                                   (v_effective_fund_access d) of
                          [] \<Rightarrow> [(r, None)]
                        | es \<Rightarrow> map (\<lambda>e. (r, Some e)) es) v)"

definition transactions_list ::
  "'n db \<Rightarrow> tx_allocated list \<Rightarrow> uuid \<Rightarrow> (tx_allocated \<Rightarrow> bool) \<Rightarrow> (tx_allocated \<Rightarrow> 'k::linorder)
     \<Rightarrow> nat option \<Rightarrow> nat option \<Rightarrow> tx_allocated list" where
  "transactions_list d v userId flt key limit offset =
     (let ia = is_admin d userId;
          rows = map fst (filter (\<lambda>j. (ia \<or> snd j \<noteq> None) \<and> flt (fst j))
                                 (transactions_joined d v userId))
      in page (case limit of Some n \<Rightarrow> n | None \<Rightarrow> 1000) (case offset of Some m \<Rightarrow> m | None \<Rightarrow> 0)
           (sort_key key rows))"

text \<open>
  \<open>GET /facturas\<close>: \<open>from app.facturas f left join app.clients c on c.id = f.client_id, me
  where (me.is_admin or f.fund_id in (select fund_id from allowed_funds)) and ...\<close>
\<close>

definition facturas_list ::
  "'n db \<Rightarrow> documents \<Rightarrow> uuid \<Rightarrow> (factura \<Rightarrow> bool) \<Rightarrow> (factura \<Rightarrow> 'k::linorder) \<Rightarrow> nat \<Rightarrow> nat
     \<Rightarrow> factura list" where
  "facturas_list d docs userId flt key limit offset =
     page limit offset (sort_key key
       (filter (\<lambda>f. (is_admin d userId \<or> f_fund_id f \<in> set (allowed_funds d userId)) \<and> flt f)
               (facturas docs)))"

text \<open>\<open>GET /payments\<close>: the same clause on \<open>app.payments p\<close>.\<close>

definition payments_list ::
  "'n db \<Rightarrow> documents \<Rightarrow> uuid \<Rightarrow> (payment \<Rightarrow> bool) \<Rightarrow> (payment \<Rightarrow> 'k::linorder) \<Rightarrow> nat \<Rightarrow> nat
     \<Rightarrow> payment list" where
  "payments_list d docs userId flt key limit offset =
     page limit offset (sort_key key
       (filter (\<lambda>p. (is_admin d userId \<or> p_fund_id p \<in> set (allowed_funds d userId)) \<and> flt p)
               (payments docs)))"

section \<open>Settlements and their totals\<close>

text \<open>
  A row of \<open>app.liquidaciones_resumen\<close> as the routes read it: the settlement, its fund and
  the four subtotal columns that \<open>total_final\<close> uses.
\<close>

record resumen =
  r_id :: uuid
  r_fund_id :: uuid
  r_subtotal_gastos_y_pagos_adm :: "rat option"
  r_subtotal_trabajos :: "rat option"
  r_saldos_positivos :: "rat option"
  r_saldos_negativos :: "rat option"

text \<open>The amounts of the lines of one settlement, and \<open>sum\<close> of SQL, \<open>null\<close> over no row.\<close>

definition lines_of :: "line list \<Rightarrow> uuid \<Rightarrow> rat list" where
  "lines_of t i = map (\<lambda>x. snd (snd x)) (filter (\<lambda>x. fst x = i) t)"

definition sql_sum :: "rat list \<Rightarrow> rat option" where
  "sql_sum xs = (if xs = [] then None else Some (sum_list xs))"

text \<open>
  Modelled from the spec: the view \<open>app.liquidaciones_resumen\<close> is not in the source
  tree. The spec gives the total of a settlement from the sums of its expense, work,
  negative-balance and positive-balance lines, and the routes read those of the columns
  \<open>subtotal_gastos_y_pagos_adm\<close>, \<open>subtotal_trabajos\<close>, \<open>saldos_negativos\<close> and
  \<open>saldos_positivos\<close> of the view: one row per settlement with its fund and these four
  sums, a sum over no line being \<open>null\<close>.
\<close>

definition liquidaciones_resumen :: "documents \<Rightarrow> resumen list" where
  "liquidaciones_resumen docs =
     map (\<lambda>l. \<lparr>r_id = l_id l, r_fund_id = l_fund_id l,
                r_subtotal_gastos_y_pagos_adm = sql_sum (lines_of (liquidacion_gastos docs) (l_id l)),
                r_subtotal_trabajos = sql_sum (lines_of (liquidacion_trabajos docs) (l_id l)),
                r_saldos_positivos = sql_sum (lines_of (liquidacion_saldos_positivos docs) (l_id l)),
                r_saldos_negativos = sql_sum (lines_of (liquidacion_saldos_negativos docs) (l_id l))\<rparr>)
         (liquidaciones docs)"

text \<open>\<open>coalesce(x, 0)\<close> and \<open>round(x::numeric, 2)\<close>, which rounds halves away from zero.\<close>

definition coalesce0 :: "rat option \<Rightarrow> rat" where
  "coalesce0 x = (case x of Some q \<Rightarrow> q | None \<Rightarrow> 0)"

definition round2 :: "rat \<Rightarrow> rat" where
  "round2 x = sgn x * of_int \<lfloor>\<bar>x\<bar> * 100 + 1 / 2\<rfloor> / 100"

text \<open>The expression of \<open>total_final\<close>, the same in the list and in the detail.\<close>

definition total_final :: "rat option \<Rightarrow> rat option \<Rightarrow> resumen \<Rightarrow> rat" where
  "total_final ingreso_banco impositivo r =
     round2 (coalesce0 ingreso_banco
             - coalesce0 impositivo
             - coalesce0 (r_subtotal_gastos_y_pagos_adm r)
             - coalesce0 (r_subtotal_trabajos r)
             - coalesce0 (r_saldos_negativos r)
             + coalesce0 (r_saldos_positivos r))"

text \<open>
  \<open>app.liquidaciones_resumen r join app.liquidaciones l on l.id = r.id\<close>: the rows of
  \<open>base\<close> in the list and of \<open>d\<close> in the detail.
\<close>

definition resumen_join :: "documents \<Rightarrow> (resumen \<times> liquidacion) list" where
  "resumen_join docs =
     concat (map (\<lambda>r. map (\<lambda>l. (r, l)) (filter (\<lambda>l. l_id l = r_id r) (liquidaciones docs)))
                 (liquidaciones_resumen docs))"

text \<open>
  \<open>GET /liquidaciones\<close>: the rows of \<open>base\<close> that pass the filters, each with its
  \<open>total_final\<close>, under the access clause on \<open>b.fund_id\<close>.
\<close>

definition liquidaciones_list ::
  "'n db \<Rightarrow> documents \<Rightarrow> uuid \<Rightarrow> (resumen \<times> liquidacion \<Rightarrow> bool)
     \<Rightarrow> (resumen \<times> liquidacion \<Rightarrow> 'k::linorder) \<Rightarrow> nat \<Rightarrow> nat
     \<Rightarrow> ((resumen \<times> liquidacion) \<times> rat) list" where
  "liquidaciones_list d docs userId flt key limit offset =
     (let base = filter flt (resumen_join docs);
          rows = filter (\<lambda>b. is_admin d userId \<or> r_fund_id (fst b) \<in> set (allowed_funds d userId)) base
      in page limit offset
           (map (\<lambda>b. (b, total_final (l_ingreso_banco (snd b)) (l_impositivo (snd b)) (fst b)))
                (sort_key key rows)))"



section \<open>Comparing two runs of the import\<close>

text \<open>
  The database with other access tables; a statement as another user sends it; and a
  connection seen through both.
\<close>

definition with_access ::
  "(uuid \<times> uuid) list \<Rightarrow> (uuid \<times> string) list \<Rightarrow> (uuid \<times> uuid \<times> scope) list \<Rightarrow> 'n db \<Rightarrow> 'n db" where
  "with_access ur rs rfa d = d\<lparr>user_roles := ur, roles := rs, role_fund_access := rfa\<rparr>"

definition as_user :: "uuid \<Rightarrow> 'n stmt \<Rightarrow> 'n stmt" where
  "as_user u s = (case s of SetCurrentUser v \<Rightarrow> SetCurrentUser u | _ \<Rightarrow> s)"

definition relabel :: "('n db \<Rightarrow> 'n db) \<Rightarrow> uuid \<Rightarrow> 'n conn \<Rightarrow> 'n conn" where
  "relabel g u c =
     \<lparr>persisted = g (persisted c), txn = map_option g (txn c), sent = map (as_user u) (sent c)\<rparr>"

text \<open>The rows the import adds for the parsed rows, given the names of the new transactions.\<close>

definition imported_transactions :: "uuid list \<Rightarrow> 'n::abs Row list \<Rightarrow> 'n bank_transaction list" where
  "imported_transactions ids rows =
     map (\<lambda>(i, r). \<lparr>bt_id = i, bt_account_id = uuid_cast (row_account_id r),
                     bt_tx_date = row_date r, bt_description = row_description r,
                     bt_amount = \<bar>row_amount r\<bar>, bt_type = row_type r,
                     bt_category_id = map_option uuid_cast (row_category_id r)\<rparr>)
         (zip ids rows)"

definition imported_allocations :: "uuid list \<Rightarrow> 'n::one Row list \<Rightarrow> (uuid \<times> uuid \<times> 'n) list" where
  "imported_allocations ids rows =
     map (\<lambda>(i, r). (i, uuid_cast (row_fund_id r), 1)) (zip ids rows)"

text \<open>The statement of the fund-scope gate.\<close>

definition is_scope_query :: "'n stmt \<Rightarrow> bool" where
  "is_scope_query s = (case s of SelectWritableFundCount u fs \<Rightarrow> True | _ \<Rightarrow> False)"

text \<open>A handler sends only statements of a kind when it adds only such to those sent.\<close>

definition sends :: "('n stmt \<Rightarrow> bool) \<Rightarrow> ('n conn \<Rightarrow> 'a \<times> 'n conn) \<Rightarrow> bool" where
  "sends P m \<longleftrightarrow> (\<forall>c. list_all P (sent c) \<longrightarrow> list_all P (sent (snd (m c))))"

section \<open>Transaction scopes\<close>

text \<open>
  A handler keeps the transaction it runs in when, started inside an open transaction, it
  leaves the committed tables as they were and the transaction open.
\<close>

definition keeps_txn :: "('n conn \<Rightarrow> (err + 'a) \<times> 'n conn) \<Rightarrow> bool" where
  "keeps_txn m \<longleftrightarrow> (\<forall>c. txn c \<noteq> None \<longrightarrow> persisted (snd (m c)) = persisted c \<and> txn (snd (m c)) \<noteq> None)"

section \<open>Example data\<close>

text \<open>
  A test for the shape of a UUID, some identifiers, a database with three users (the
  first writes fund A and reads fund B; the second writes both; the third holds the role
  Admin and no grant), a store that refuses nothing, and bodies of requests. Numbers are
  exact rationals here.
\<close>

definition hex_digit :: "char \<Rightarrow> bool" where
  "hex_digit c \<longleftrightarrow> c \<in> set ''0123456789abcdefABCDEF''"

definition uuid_shape :: "string \<Rightarrow> bool" where
  "uuid_shape s \<longleftrightarrow> length s = 36 \<and>
     (\<forall>i < 36. if i \<in> {8, 13, 18, 23} then s ! i = CHR ''-'' else hex_digit (s ! i))"

definition fund_a :: uuid where "fund_a = ''aaaaaaaa-aaaa-4aaa-8aaa-aaaaaaaaaaaa''"
definition fund_b :: uuid where "fund_b = ''bbbbbbbb-bbbb-4bbb-8bbb-bbbbbbbbbbbb''"
definition user_1 :: uuid where "user_1 = ''11111111-1111-4111-8111-111111111111''"
definition role_1 :: uuid where "role_1 = ''22222222-2222-4222-8222-222222222222''"
definition account_1 :: uuid where "account_1 = ''33333333-3333-4333-8333-333333333333''"
definition tx_1 :: uuid where "tx_1 = ''44444444-4444-4444-8444-444444444444''"
definition tx_new :: uuid where "tx_new = ''55555555-5555-4555-8555-555555555555''"

definition user_2 :: uuid where "user_2 = ''66666666-6666-4666-8666-666666666666''"
definition role_2 :: uuid where "role_2 = ''77777777-7777-4777-8777-777777777777''"
definition user_3 :: uuid where "user_3 = ''88888888-8888-4888-8888-888888888888''"
definition role_3 :: uuid where "role_3 = ''99999999-9999-4999-8999-999999999999''"

definition ex_db :: "rat db" where
  "ex_db = \<lparr>user_roles = [(user_1, role_1), (user_2, role_2), (user_3, role_3)],
            roles = [(role_1, ''Editor''), (role_2, ''Treasurer''), (role_3, ''Admin'')],
            role_fund_access = [(role_1, fund_a, Write), (role_1, fund_b, Read),
                                (role_2, fund_a, Write), (role_2, fund_b, Admin)],
            bank_transactions = [\<lparr>bt_id = tx_1, bt_account_id = account_1, bt_tx_date = ''2024-03-01'',
               bt_description = None, bt_amount = 100, bt_type = debit, bt_category_id = None\<rparr>],
            transaction_allocations = [(tx_1, fund_a, 1)]\<rparr>"

definition ex_store :: "rat store" where
  "ex_store = \<lparr>refuses = (\<lambda>d s. False), gen_random_uuid = (\<lambda>d. tx_new)\<rparr>"

text \<open>A store whose constraints refuse every allocation to fund B.\<close>

definition ex_store_no_b :: "rat store" where
  "ex_store_no_b =
     \<lparr>refuses = (\<lambda>d s. case s of InsertAllocation t f r \<Rightarrow> uuid_cast f = fund_b | _ \<Rightarrow> False),
      gen_random_uuid = (\<lambda>d. tx_new)\<rparr>"

definition ex_input :: "(string \<times> rat) list option \<Rightarrow> string option \<Rightarrow> rat TxInput" where
  "ex_input allocs fund =
     \<lparr>ti_account_id = account_1, ti_tx_date = ''2024-03-02'', ti_description = Some ''rent'',
      ti_amount = 250, ti_type = debit, ti_fund_id = fund, ti_category_id = None,
      ti_allocations = allocs\<rparr>"

definition ex_patch :: "(string \<times> rat) list option \<Rightarrow> string option \<Rightarrow> rat TxPatch" where
  "ex_patch allocs fund =
     \<lparr>tp_account_id = None, tp_tx_date = None, tp_description = None, tp_amount = None,
      tp_type = None, tp_fund_id = fund, tp_category_id = None, tp_allocations = allocs\<rparr>"

text \<open>
  For the import: the schema library with its messages, a ledger with no transaction
  whose one user reads fund A only, a store that names the first two new rows, and a
  record of the CSV parser.
\<close>

definition ex_zod :: zod where
  "ex_zod = \<lparr>uuid_ok = uuid_shape,
             message_of = (\<lambda>c. case c of Required \<Rightarrow> ''Required'' | Invalid_uuid \<Rightarrow> ''Invalid uuid''
                | Invalid_regex \<Rightarrow> ''Invalid'' | Not_positive \<Rightarrow> ''Number must be greater than 0''
                | Invalid_enum \<Rightarrow> ''Invalid enum value'')\<rparr>"

definition ex_ledger :: "jsnum db" where
  "ex_ledger = \<lparr>user_roles = [(user_1, role_1)], roles = [(role_1, ''Editor'')],
                role_fund_access = [(role_1, fund_a, Read)],
                bank_transactions = [], transaction_allocations = []\<rparr>"

definition ex_store_js :: "jsnum store" where
  "ex_store_js = \<lparr>refuses = (\<lambda>d s. False),
      gen_random_uuid = (\<lambda>d. if bank_transactions d = [] then tx_1 else tx_new)\<rparr>"

definition ex_row :: "string \<Rightarrow> string \<Rightarrow> string \<Rightarrow> raw" where
  "ex_row amount ty fund =
     [(''account_id'', account_1), (''date'', ''2024-03-05''), (''description'', ''fee''),
      (''amount'', amount), (''type'', ty), (''category_id'', []), (''fund_id'', fund)]"

text \<open>
  Documents of fund A and of a fund C that no role is granted: two invoices, two payments,
  two settlements (the first with lines), and two rows of the view of allocated
  transactions.
\<close>

definition fund_c :: uuid where "fund_c = ''cccccccc-cccc-4ccc-8ccc-cccccccccccc''"
definition client_1 :: uuid where "client_1 = ''dddddddd-dddd-4ddd-8ddd-dddddddddddd''"
definition liq_a :: uuid where "liq_a = ''eeeeeeee-eeee-4eee-8eee-eeeeeeeeeee1''"
definition liq_c :: uuid where "liq_c = ''eeeeeeee-eeee-4eee-8eee-eeeeeeeeeee2''"

definition ex_factura :: "uuid \<Rightarrow> string \<Rightarrow> rat \<Rightarrow> factura" where
  "ex_factura fund numero amt =
     \<lparr>f_id = tx_new, f_fund_id = fund, f_client_id = client_1, f_numero = numero,
      f_monto_total = amt\<rparr>"

definition ex_payment :: "uuid \<Rightarrow> rat \<Rightarrow> payment" where
  "ex_payment fund amt =
     \<lparr>p_id = tx_new, p_fund_id = fund, p_provider_id = client_1, p_monto_total = amt\<rparr>"

definition ex_liquidacion_a :: liquidacion where
  "ex_liquidacion_a = \<lparr>l_id = liq_a, l_name = ''March'', l_client_id = Some client_1,
     l_fund_id = fund_a, l_impositivo = Some 100, l_ingreso_banco = Some 1000\<rparr>"

definition ex_liquidacion_c :: liquidacion where
  "ex_liquidacion_c = \<lparr>l_id = liq_c, l_name = ''April'', l_client_id = None,
     l_fund_id = fund_c, l_impositivo = None, l_ingreso_banco = Some 50\<rparr>"

definition ex_docs :: documents where
  "ex_docs =
     \<lparr>facturas = [ex_factura fund_c ''0002'' 50, ex_factura fund_a ''0001'' 121],
      payments = [ex_payment fund_a 10, ex_payment fund_c 20],
      liquidaciones = [ex_liquidacion_a, ex_liquidacion_c],
      liquidacion_gastos = [(liq_a, ''stamps'', 2001 / 200), (liq_a, ''bank fee'', 20)],
      liquidacion_trabajos = [(liq_a, ''repairs'', 5)],
      liquidacion_saldos_positivos = [(liq_a, ''carried over'', 3 / 2)],
      liquidacion_saldos_negativos = []\<rparr>"

definition ex_view :: "tx_allocated list" where
  "ex_view =
     [\<lparr>va_transaction_id = tx_1, va_tx_date = ''2024-03-01'', va_account_id = account_1,
       va_fund_id = fund_a\<rparr>,
      \<lparr>va_transaction_id = tx_new, va_tx_date = ''2024-03-02'', va_account_id = account_1,
       va_fund_id = fund_c\<rparr>]"

section \<open>Facts about transaction scopes and thrown errors\<close>

lemma keeps_txn_return: "keeps_txn (\<lambda>c. (x, c))"
  by (simp add: keeps_txn_def)

lemma keeps_txn_bindE:
  assumes "keeps_txn m" and "\<And>a. keeps_txn (f a)"
  shows "keeps_txn (bindE m f)"
  unfolding keeps_txn_def
proof (intro allI impI)
  fix c :: "'a conn"
  assume c: "txn c \<noteq> None"
  obtain r c1 where m: "m c = (r, c1)" by (cases "m c")
  from assms(1) c m have c1: "persisted c1 = persisted c" "txn c1 \<noteq> None"
    by (auto simp: keeps_txn_def dest!: spec[of _ c])
  show "persisted (snd (bindE m f c)) = persisted c \<and> txn (snd (bindE m f c)) \<noteq> None"
  proof (cases r)
    case (Inl e)
    with m c1 show ?thesis by (simp add: bindE_def)
  next
    case (Inr a)
    from assms(2)[of a] c1 have "persisted (snd (f a c1)) = persisted c1 \<and> txn (snd (f a c1)) \<noteq> None"
      by (simp add: keeps_txn_def)
    with m c1 Inr show ?thesis by (simp add: bindE_def)
  qed
qed

lemma keeps_txn_exec_write: "keeps_txn (exec_write st s f)"
  by (auto simp: keeps_txn_def exec_write_def log_stmt_def apply_db_def Let_def)

lemma keeps_txn_assertWriteForFunds: "keeps_txn (assertWriteForFunds u fs)"
  by (auto simp: keeps_txn_def assertWriteForFunds_def select_writable_fund_count_def log_stmt_def Let_def)

lemma keeps_txn_insert_allocations: "keeps_txn (insert_allocations st t as)"
proof (induction as)
  case Nil
  have "insert_allocations st t [] = (\<lambda>c. (Inr (), c))" by (rule ext) simp
  then show ?case by (simp add: keeps_txn_return)
next
  case (Cons a as)
  have "insert_allocations st t (a # as) = bindE (insert_allocation st t (fst a) (snd a)) (\<lambda>_. insert_allocations st t as)"
    by (rule ext) simp
  with Cons show ?case
    by (simp add: keeps_txn_bindE insert_allocation_def keeps_txn_exec_write)
qed

lemma withUser_txn_closed: "txn (snd (withUser st u fn d)) = None"
  by (auto simp: withUser_def Let_def commit_txn_def rollback_txn_def log_stmt_def split: prod.splits sum.splits option.splits)

lemma withUser_throw_keeps:
  assumes "keeps_txn fn" and "fst (withUser st u fn d) = Inl e"
  shows "persisted (snd (withUser st u fn d)) = d"
proof -
  let ?c = "log_stmt (SetCurrentUser u) (begin_txn (connect d))"
  have c: "txn ?c \<noteq> None" "persisted ?c = d"
    by (simp_all add: log_stmt_def begin_txn_def connect_def Let_def)
  obtain r c1 where fn: "fn ?c = (r, c1)" by (cases "fn ?c")
  from assms(1) c fn have c1: "persisted c1 = d" "txn c1 \<noteq> None"
    by (auto simp: keeps_txn_def dest!: spec[of _ ?c])
  show ?thesis
    using assms(2) fn c1
    by (auto simp: withUser_def Let_def commit_txn_def rollback_txn_def log_stmt_def split: prod.splits sum.splits option.splits if_splits)
qed

lemma withUser_error_cases:
  "withUser st u fn d = (Inl e, c) \<Longrightarrow>
     e = DbError \<or> (\<exists>c1. fn (log_stmt (SetCurrentUser u) (begin_txn (connect d))) = (Inl e, c1))"
  by (auto simp: withUser_def Let_def commit_txn_def split: prod.splits sum.splits option.splits if_splits)

lemma exec_write_error: "exec_write st s f c = (Inl e, c1) \<Longrightarrow> e = DbError"
  by (auto simp: exec_write_def Let_def split: if_splits)

lemma insert_allocations_error: "insert_allocations st t as c = (Inl e, c1) \<Longrightarrow> e = DbError"
proof (induction as arbitrary: c)
  case Nil then show ?case by simp
next
  case (Cons a as)
  then show ?case
    by (auto simp: bindE_def insert_allocation_def split: prod.splits sum.splits dest: exec_write_error)
qed

lemma assertWriteForFunds_error:
  "assertWriteForFunds u fs c = (Inl e, c1) \<Longrightarrow> e = HttpError 403 ''forbidden: missing write/admin on one or more funds''"
  by (auto simp: assertWriteForFunds_def Let_def split: if_splits prod.splits)

lemma post_errors:
  assumes "post_transaction st tol u (Inr input) d = (Inl e, c)"
     and "effective_allocations input \<noteq> []" and "\<not> ratio_sum_off tol (ratio_sum (effective_allocations input))"
  shows "e = DbError \<or> e = HttpError 403 ''forbidden: missing write/admin on one or more funds''"
proof -
  from assms have "withUser st u
              (bindE (assertWriteForFunds u (uniq (map fst (effective_allocations input)))) (\<lambda>_.
               bindE (insert_bank_transaction st (ti_account_id input) (ti_tx_date input)
                        (ti_description input) (ti_amount input) (ti_type input)
                        (ti_category_id input)) (\<lambda>txId.
               bindE (insert_allocations st txId (effective_allocations input)) (\<lambda>_ c. (Inr txId, c))))) d = (Inl e, c)"
    by (simp add: post_transaction_def Let_def)
  from withUser_error_cases[OF this] show ?thesis
    by (auto simp: bindE_def insert_bank_transaction_def Let_def split: prod.splits sum.splits
      dest: exec_write_error assertWriteForFunds_error insert_allocations_error)
qed

lemma patch_errors:
  assumes "patch_transaction st tol is_uuid u t (Inr body) d = (Inl e, c)"
     and "is_uuid t" and "patch_new_alloc tol body = Inr na"
  shows "e = DbError \<or> e = HttpError 403 ''forbidden: missing write/admin on one or more funds''"
proof -
  from assms have "withUser st u (patch_body st tol u t body) d = (Inl e, c)"
    by (simp add: patch_transaction_def)
  from withUser_error_cases[OF this] assms(3) show ?thesis
    by (auto simp: patch_body_def bindE_def update_bank_transaction_def delete_allocations_def split: prod.splits sum.splits option.splits
      dest: exec_write_error assertWriteForFunds_error insert_allocations_error)
qed

lemma visible_in_withUser:
  "visible (log_stmt (SetCurrentUser u) (begin_txn (connect d))) = d"
  by (simp add: visible_def log_stmt_def begin_txn_def connect_def Let_def)

lemma exec_write_ok:
  "exec_write st s f c = (Inr u, c1) \<Longrightarrow> visible c1 = f (visible c)"
  by (auto simp: exec_write_def Let_def apply_db_def visible_def log_stmt_def split: if_splits option.splits)

lemma insert_allocations_ok:
  "insert_allocations st t as c = (Inr u, c1) \<Longrightarrow>
   visible c1 = (visible c)\<lparr>transaction_allocations :=
      transaction_allocations (visible c) @ map (\<lambda>a. (uuid_cast t, uuid_cast (fst a), snd a)) as\<rparr>"
proof (induction as arbitrary: c)
  case Nil
  then show ?case by simp
next
  case (Cons a as)
  from Cons.prems obtain c2 where
    a: "insert_allocation st t (fst a) (snd a) c = (Inr (), c2)" and
    r: "insert_allocations st t as c2 = (Inr u, c1)"
    by (auto simp: bindE_def split: prod.splits sum.splits)
  from a have "visible c2 = (visible c)\<lparr>transaction_allocations :=
      transaction_allocations (visible c) @ [(uuid_cast t, uuid_cast (fst a), snd a)]\<rparr>"
    by (simp add: insert_allocation_def exec_write_ok)
  with Cons.IH[OF r] show ?case by simp
qed

lemma keeps_txn_patch_body: "keeps_txn (patch_body st tol userId txId body)"
  unfolding patch_body_def
  by (intro keeps_txn_bindE keeps_txn_return)
     (auto simp: update_bank_transaction_def delete_allocations_def
           intro!: keeps_txn_bindE keeps_txn_return keeps_txn_exec_write keeps_txn_assertWriteForFunds
                   keeps_txn_insert_allocations split: option.splits)

lemma withUser_ok:
  assumes "keeps_txn fn" and "withUser st u fn d = (Inr out, c)"
  shows "\<exists>c1. fn (log_stmt (SetCurrentUser u) (begin_txn (connect d))) = (Inr out, c1)
           \<and> persisted c = visible c1"
proof -
  let ?c = "log_stmt (SetCurrentUser u) (begin_txn (connect d))"
  have c: "txn ?c \<noteq> None"
    by (simp add: log_stmt_def begin_txn_def connect_def Let_def)
  obtain r c1 where fn: "fn ?c = (r, c1)" by (cases "fn ?c")
  from assms(1) c fn have c1: "txn c1 \<noteq> None"
    by (auto simp: keeps_txn_def dest!: spec[of _ ?c])
  show ?thesis
    using assms(2) fn c1
    by (auto simp: withUser_def Let_def commit_txn_def rollback_txn_def log_stmt_def visible_def
        split: prod.splits sum.splits option.splits if_splits)
qed

lemma assertWriteForFunds_visible:
  "assertWriteForFunds u fs c = (r, c1) \<Longrightarrow> visible c1 = visible c"
  by (auto simp: assertWriteForFunds_def select_writable_fund_count_def log_stmt_def visible_def Let_def split: if_splits option.splits)

lemma patch_body_ok:
  assumes "patch_new_alloc tol body = Inr (Some na)"
    and "patch_body st tol userId txId body c = (Inr u, c1)"
  shows "transaction_allocations (visible c1) =
           filter (\<lambda>row. fst row \<noteq> uuid_cast txId) (transaction_allocations (visible c))
           @ map (\<lambda>a. (uuid_cast txId, uuid_cast (fst a), snd a)) na"
proof -
  from assms obtain c2 c3 c4 where
    g: "assertWriteForFunds userId (uniq (map fst na)) c = (Inr (), c2)" and
    up: "update_bank_transaction st txId body c2 = (Inr (), c3)" and
    del: "delete_allocations st txId c3 = (Inr (), c4)" and
    ins: "insert_allocations st txId na c4 = (Inr u, c1)"
    by (auto simp: patch_body_def bindE_def split: prod.splits sum.splits)
  from g have v2: "visible c2 = visible c" by (rule assertWriteForFunds_visible)
  from up have v3: "transaction_allocations (visible c3) = transaction_allocations (visible c2)"
    by (simp add: update_bank_transaction_def exec_write_ok)
  from del have v4: "transaction_allocations (visible c4) =
      filter (\<lambda>row. fst row \<noteq> uuid_cast txId) (transaction_allocations (visible c3))"
    by (simp add: delete_allocations_def exec_write_ok)
  from insert_allocations_ok[OF ins] v2 v3 v4 show ?thesis by simp
qed

section \<open>Facts about the gate\<close>

lemma set_uniq: "set (uniq xs) = set xs"
  by (induction xs rule: uniq.induct) auto

lemma distinct_uniq: "distinct (uniq xs)"
  by (induction xs rule: uniq.induct) (auto simp: set_uniq)

lemma length_uniq: "length (uniq xs) = card (set xs)"
  using distinct_card[OF distinct_uniq, of xs] by (simp add: set_uniq)

lemma uniq_Nil_iff: "uniq xs = [] \<longleftrightarrow> xs = []"
  by (cases xs) auto

lemma writable_fund_count_card:
  "writable_fund_count d userId fundIds = card (writable_funds d userId (set fundIds))"
proof -
  have "set (map (\<lambda>r. fst (snd r))
       (filter (\<lambda>r. fst r = userId \<and> fst (snd r) \<in> set (map uuid_cast fundIds)
                     \<and> snd (snd r) \<in> {Write, Admin})
               (v_effective_fund_access d))) = writable_funds d userId (set fundIds)"
    by (auto simp: writable_funds_def image_iff) force+
  then show ?thesis
    by (simp add: writable_fund_count_def length_remdups_card_conv)
qed

lemma assertWriteForFunds_result:
  "fundIds \<noteq> [] \<Longrightarrow>
   assertWriteForFunds userId fundIds c =
     (if card (writable_funds (visible c) userId (set fundIds)) = length fundIds then Inr ()
      else Inl (HttpError 403 ''forbidden: missing write/admin on one or more funds''),
      log_stmt (SelectWritableFundCount userId fundIds) c)"
  by (simp add: assertWriteForFunds_def select_writable_fund_count_def writable_fund_count_card Let_def)

lemma post_gate_rejects:
  fixes tol :: "'n::{zero,one,plus,minus,abs,ord}"
  assumes "effective_allocations input \<noteq> []"
    and "\<not> ratio_sum_off tol (ratio_sum (effective_allocations input))"
    and "card (writable_funds d userId (set (map fst (effective_allocations input))))
           \<noteq> card (set (map fst (effective_allocations input)))"
  shows "post_transaction st tol userId (Inr input) d =
           (Inl (HttpError 403 ''forbidden: missing write/admin on one or more funds''),
            \<lparr>persisted = d, txn = None,
             sent = [Begin, SetCurrentUser userId,
                     SelectWritableFundCount userId (uniq (map fst (effective_allocations input))),
                     Rollback]\<rparr>)"
proof -
  let ?fs = "uniq (map fst (effective_allocations input))"
  have ne: "?fs \<noteq> []" using assms(1) by (simp add: uniq_Nil_iff)
  have "assertWriteForFunds userId ?fs (log_stmt (SetCurrentUser userId) (begin_txn (connect d))) =
     (Inl (HttpError 403 ''forbidden: missing write/admin on one or more funds''),
      log_stmt (SelectWritableFundCount userId ?fs) (log_stmt (SetCurrentUser userId) (begin_txn (connect d))))"
    using assms(3) by (simp add: assertWriteForFunds_result[OF ne] set_uniq length_uniq visible_in_withUser)
  then show ?thesis
    using assms(1,2)
    by (simp add: post_transaction_def Let_def withUser_def bindE_def rollback_txn_def log_stmt_def
        begin_txn_def connect_def)
qed

lemma patch_gate_rejects:
  fixes tol :: "'n::{zero,one,plus,minus,abs,ord}"
  assumes "is_uuid txId" and "patch_new_alloc tol body = Inr (Some na)"
    and "card (writable_funds d userId (set (map fst na))) \<noteq> card (set (map fst na))"
  shows "patch_transaction st tol is_uuid userId txId (Inr body) d =
           (Inl (HttpError 403 ''forbidden: missing write/admin on one or more funds''),
            \<lparr>persisted = d, txn = None,
             sent = [Begin, SetCurrentUser userId,
                     SelectWritableFundCount userId (uniq (map fst na)), Rollback]\<rparr>)"
proof -
  let ?fs = "uniq (map fst na)"
  from assms(2) have "na \<noteq> []"
    by (auto simp: patch_new_alloc_def split: if_splits option.splits)
  then have ne: "?fs \<noteq> []" by (simp add: uniq_Nil_iff)
  have "assertWriteForFunds userId ?fs (log_stmt (SetCurrentUser userId) (begin_txn (connect d))) =
     (Inl (HttpError 403 ''forbidden: missing write/admin on one or more funds''),
      log_stmt (SelectWritableFundCount userId ?fs) (log_stmt (SetCurrentUser userId) (begin_txn (connect d))))"
    using assms(3) by (simp add: assertWriteForFunds_result[OF ne] set_uniq length_uniq visible_in_withUser)
  then show ?thesis
    using assms(1,2)
    by (simp add: patch_transaction_def patch_body_def Let_def withUser_def bindE_def rollback_txn_def log_stmt_def
        begin_txn_def connect_def)
qed

section \<open>Facts about the loose parser\<close>


lemma scan_absent:
  "c \<notin> set ys \<Longrightarrow>
   foldl (\<lambda>(found, i) x. (if x = c then i else found, i + 1)) (b, i) ys = (b, i + int (length ys))"
  by (induction ys arbitrary: b i) auto


lemma lastIndexOf_absent: "c \<notin> set s \<Longrightarrow> lastIndexOf s c = - 1"
  by (simp add: lastIndexOf_def scan_absent)





lemma filter_kept_id: "\<forall>c \<in> set s. kept c \<Longrightarrow> filter kept s = s"
  by (induction s) auto

lemma digit_not_sep: "is_digit c \<Longrightarrow> c \<noteq> CHR ''.'' \<and> c \<noteq> CHR '','' \<and> c \<noteq> CHR ''-''"
  by (auto simp: is_digit_def)

lemma remove_all_absent: "c \<notin> set s \<Longrightarrow> remove_all c s = s"
  by (induction s) (auto simp: remove_all_def)




lemma amount_literal_plain:
  assumes "\<forall>c \<in> set t. is_digit c \<or> c = CHR ''-''"
  shows "amount_literal t = t"
proof -
  have k: "filter kept t = t"
    using assms by (intro filter_kept_id) (auto simp: kept_def)
  have nc: "CHR ''.'' \<notin> set t" "CHR '','' \<notin> set t"
    using assms digit_not_sep by auto
  show ?thesis
    unfolding amount_literal_def k Let_def using nc by (simp add: remove_all_absent)
qed

lemma amount_literal_kept: "amount_literal (filter kept s) = amount_literal s"
  by (simp add: amount_literal_def)


section \<open>Facts about the validation of a batch\<close>


lemma validate_rows_rows:
  "fst (validate_rows js z i rs) =
     concat (map (\<lambda>r. case parse_row js z r of Inl issues \<Rightarrow> [] | Inr data \<Rightarrow> [data]) rs)"
proof (induction rs arbitrary: i)
  case Nil
  then show ?case by simp
next
  case (Cons r rs)
  obtain rows errors where v: "validate_rows js z (Suc i) rs = (rows, errors)"
    by (cases "validate_rows js z (Suc i) rs")
  from Cons.IH[of "Suc i"] v show ?case by (simp split: sum.splits)
qed

lemma validate_rows_errors_nonempty:
  "snd (validate_rows js z i rs) \<noteq> [] \<longleftrightarrow> (\<exists>r \<in> set rs. isl (parse_row js z r))"
proof (induction rs arbitrary: i)
  case Nil
  then show ?case by simp
next
  case (Cons r rs)
  obtain rows errors where v: "validate_rows js z (Suc i) rs = (rows, errors)"
    by (cases "validate_rows js z (Suc i) rs")
  from Cons.IH[of "Suc i"] v show ?case by (auto split: sum.splits)
qed

lemma length_valid_rows:
  "length (fst (validate_rows js z i rs)) = length (filter (\<lambda>r. \<not> isl (parse_row js z r)) rs)"
proof (induction rs arbitrary: i)
  case Nil
  then show ?case by simp
next
  case (Cons r rs)
  obtain rows errors where v: "validate_rows js z (Suc i) rs = (rows, errors)"
    by (cases "validate_rows js z (Suc i) rs")
  from Cons.IH[of "Suc i"] v show ?case by (auto split: sum.splits)
qed

section \<open>Facts about two runs of the import\<close>

lemma lower_char_idem: "lower_char (lower_char c) = lower_char c"
proof (cases "65 \<le> (of_char c :: nat) \<and> (of_char c :: nat) \<le> 90")
  case True
  then have "(of_char (char_of (of_char c + 32 :: nat)) :: nat) = of_char c + 32"
    by (simp add: of_char_of)
  with True show ?thesis by (simp add: lower_char_def Let_def)
next
  case False
  then show ?thesis by (auto simp: lower_char_def Let_def)
qed

lemma uuid_cast_idem: "uuid_cast (uuid_cast s) = uuid_cast s"
  by (simp add: uuid_cast_def lower_def lower_char_idem)

lemma visible_relabel: "visible (relabel g u c) = g (visible c)"
  by (simp add: visible_def relabel_def split: option.splits)

lemma log_stmt_relabel: "log_stmt (as_user u s) (relabel g u c) = relabel g u (log_stmt s c)"
  by (simp add: log_stmt_def relabel_def)

lemma begin_txn_relabel: "begin_txn (relabel g u c) = relabel g u (begin_txn c)"
  by (simp add: begin_txn_def log_stmt_def relabel_def as_user_def Let_def split: option.splits)

lemma rollback_txn_relabel: "rollback_txn (relabel g u c) = relabel g u (rollback_txn c)"
  by (simp add: rollback_txn_def log_stmt_def relabel_def as_user_def)

lemma commit_txn_relabel:
  assumes "\<And>d. refuses st (g d) Commit = refuses st d Commit"
  shows "commit_txn st (relabel g u c) = (fst (commit_txn st c), relabel g u (snd (commit_txn st c)))"
  using assms
  by (simp add: commit_txn_def log_stmt_def relabel_def as_user_def Let_def split: option.splits)

lemma exec_write_relabel:
  assumes "\<And>d. refuses st (g d) s = refuses st d s" and "as_user u s = s" and "\<And>d. f (g d) = g (f d)"
  shows "exec_write st s f (relabel g u c) =
           (fst (exec_write st s f c), relabel g u (snd (exec_write st s f c)))"
  using assms
  by (auto simp: exec_write_def visible_def log_stmt_def relabel_def apply_db_def Let_def split: option.splits)


lemma bindE_relabel:
  assumes "m' (relabel g u c) = (fst (m c), relabel g u (snd (m c)))"
    and "\<And>a c1. f' a (relabel g u c1) = (fst (f a c1), relabel g u (snd (f a c1)))"
  shows "bindE m' f' (relabel g u c) = (fst (bindE m f c), relabel g u (snd (bindE m f c)))"
  by (cases "m c") (auto simp: bindE_def assms split: sum.splits)

lemma insert_bank_transaction_relabel:
  assumes r: "\<And>d s. refuses st (with_access ur rs rfa d) s = refuses st d s"
    and g: "\<And>d. gen_random_uuid st (with_access ur rs rfa d) = gen_random_uuid st d"
  shows "insert_bank_transaction st a dt ds am ty cat (relabel (with_access ur rs rfa) u c) =
           (fst (insert_bank_transaction st a dt ds am ty cat c),
            relabel (with_access ur rs rfa) u (snd (insert_bank_transaction st a dt ds am ty cat c)))"
  unfolding insert_bank_transaction_def Let_def visible_relabel g
proof (rule bindE_relabel, rule exec_write_relabel)
  show "refuses st (with_access ur rs rfa d) (InsertBankTransaction a dt ds am ty cat) =
        refuses st d (InsertBankTransaction a dt ds am ty cat)" for d
    by (rule r)
qed (simp_all add: as_user_def with_access_def)

lemma insert_allocation_relabel:
  assumes r: "\<And>d s. refuses st (with_access ur rs rfa d) s = refuses st d s"
  shows "insert_allocation st t f x (relabel (with_access ur rs rfa) u c) =
           (fst (insert_allocation st t f x c),
            relabel (with_access ur rs rfa) u (snd (insert_allocation st t f x c)))"
  unfolding insert_allocation_def
proof (rule exec_write_relabel)
  show "refuses st (with_access ur rs rfa d) (InsertAllocation t f x) =
        refuses st d (InsertAllocation t f x)" for d
    by (rule r)
qed (simp_all add: as_user_def with_access_def)

lemma import_rows_relabel:
  assumes r: "\<And>d s. refuses st (with_access ur rs rfa d) s = refuses st d s"
    and g: "\<And>d. gen_random_uuid st (with_access ur rs rfa d) = gen_random_uuid st d"
  shows "import_rows st rows (relabel (with_access ur rs rfa) u c) =
           (fst (import_rows st rows c), relabel (with_access ur rs rfa) u (snd (import_rows st rows c)))"
proof (induction rows arbitrary: c)
  case Nil
  then show ?case by simp
next
  case (Cons row rows)
  show ?case
    unfolding import_rows.simps
    by (rule bindE_relabel, rule insert_bank_transaction_relabel[OF r g],
        rule bindE_relabel, rule insert_allocation_relabel[OF r], rule Cons.IH)
qed

lemma import_body_relabel:
  assumes r: "\<And>d s. refuses st (with_access ur rs rfa d) s = refuses st d s"
    and g: "\<And>d. gen_random_uuid st (with_access ur rs rfa d) = gen_random_uuid st d"
  shows "import_body st rows (relabel (with_access ur rs rfa) u c) =
           (fst (import_body st rows c), relabel (with_access ur rs rfa) u (snd (import_body st rows c)))"
proof -
  have "bindE (import_rows st rows) (\<lambda>_. commit_txn st) (relabel (with_access ur rs rfa) u (begin_txn c)) =
          (fst (bindE (import_rows st rows) (\<lambda>_. commit_txn st) (begin_txn c)),
           relabel (with_access ur rs rfa) u (snd (bindE (import_rows st rows) (\<lambda>_. commit_txn st) (begin_txn c))))"
    by (rule bindE_relabel, rule import_rows_relabel[OF r g], rule commit_txn_relabel, rule r)
  then show ?thesis
    by (cases "bindE (import_rows st rows) (\<lambda>_. commit_txn st) (begin_txn c)")
       (auto simp: import_body_def begin_txn_relabel rollback_txn_relabel split: sum.splits)
qed

lemma withUser_relabel:
  assumes r: "\<And>d. refuses st (g d) Commit = refuses st d Commit"
    and f: "\<And>c. fn' (relabel g u2 c) = (fst (fn c), relabel g u2 (snd (fn c)))"
  shows "withUser st u2 fn' (g d) =
           (fst (withUser st u1 fn d), relabel g u2 (snd (withUser st u1 fn d)))"
proof -
  let ?c = "log_stmt (SetCurrentUser u1) (begin_txn (connect d))"
  have c: "log_stmt (SetCurrentUser u2) (begin_txn (connect (g d))) = relabel g u2 ?c"
    by (simp add: log_stmt_def begin_txn_def connect_def relabel_def as_user_def Let_def)
  obtain x c1 where fn: "fn ?c = (x, c1)" by (cases "fn ?c")
  obtain y c2 where cm: "commit_txn st c1 = (y, c2)" by (cases "commit_txn st c1")
  from f[of ?c] fn have fn': "fn' (relabel g u2 ?c) = (x, relabel g u2 c1)" by simp
  from commit_txn_relabel[of st g u2 c1, OF r] cm
  have cm': "commit_txn st (relabel g u2 c1) = (y, relabel g u2 c2)" by simp
  show ?thesis
    unfolding withUser_def Let_def c
    using fn fn' cm cm' by (auto simp: rollback_txn_relabel split: sum.splits)
qed

lemma import_transactions_relabel:
  fixes js :: "'n::{zero,one,abs,ord} js"
  assumes r: "\<And>d s. refuses st (with_access ur rs rfa d) s = refuses st d s"
    and g: "\<And>d. gen_random_uuid st (with_access ur rs rfa d) = gen_random_uuid st d"
  shows "import_transactions js z st u2 dryRun upload (with_access ur rs rfa d) =
           (fst (import_transactions js z st u1 dryRun upload d),
            relabel (with_access ur rs rfa) u2 (snd (import_transactions js z st u1 dryRun upload d)))"
proof -
  have c: "connect (with_access ur rs rfa d) = relabel (with_access ur rs rfa) u2 (connect d)"
    by (simp add: connect_def relabel_def)
  have w: "withUser st u2 (import_body st rows) (with_access ur rs rfa d) =
           (fst (withUser st u1 (import_body st rows) d),
            relabel (with_access ur rs rfa) u2 (snd (withUser st u1 (import_body st rows) d)))" for rows
    by (rule withUser_relabel, rule r, rule import_body_relabel[OF r g])
  show ?thesis
    unfolding import_transactions_def
    by (cases "withUser st u1 (import_body st (fst (validate_rows js z 0 (case upload of Some (Inr x) \<Rightarrow> x | _ \<Rightarrow> [])))) d")
       (auto simp: c w Let_def split: option.splits sum.splits prod.splits)
qed


lemma sends_bindE:
  assumes "sends P m" and "\<And>a. sends P (f a)"
  shows "sends P (bindE m f)"
  unfolding sends_def
proof (intro allI impI)
  fix c :: "'a conn"
  assume c: "list_all P (sent c)"
  obtain r c1 where m: "m c = (r, c1)" by (cases "m c")
  from assms(1) c m have c1: "list_all P (sent c1)"
    by (auto simp: sends_def dest!: spec[of _ c])
  show "list_all P (sent (snd (bindE m f c)))"
  proof (cases r)
    case (Inl e)
    with m c1 show ?thesis by (simp add: bindE_def)
  next
    case (Inr a)
    from assms(2)[of a] c1 have "list_all P (sent (snd (f a c1)))"
      by (simp add: sends_def)
    with m Inr show ?thesis by (simp add: bindE_def)
  qed
qed

lemma sends_return: "sends P (\<lambda>c. (x, c))"
  by (simp add: sends_def)

lemma sends_exec_write: "P s \<Longrightarrow> sends P (exec_write st s f)"
  by (auto simp: sends_def exec_write_def log_stmt_def apply_db_def Let_def split: option.splits)

lemma sends_commit_txn: "P Commit \<Longrightarrow> sends P (commit_txn st)"
  by (auto simp: sends_def commit_txn_def log_stmt_def Let_def split: option.splits)

lemma sends_import_rows:
  assumes "\<And>a dt ds am ty cat. P (InsertBankTransaction a dt ds am ty cat)"
    and "\<And>t f x. P (InsertAllocation t f x)"
  shows "sends P (import_rows st rows)"
proof (induction rows)
  case Nil
  have "import_rows st [] = (\<lambda>c. (Inr (), c))" by (rule ext) simp
  then show ?case by (simp add: sends_return)
next
  case (Cons r rows)
  have "import_rows st (r # rows) =
     bindE (insert_bank_transaction st (row_account_id r) (row_date r) (row_description r)
              \<bar>row_amount r\<bar> (row_type r) (row_category_id r)) (\<lambda>tx.
     bindE (insert_allocation st tx (row_fund_id r) 1) (\<lambda>_.
     import_rows st rows))"
    by (rule ext) simp
  moreover have "sends P (insert_bank_transaction st a dt ds am ty cat)" for a dt ds am ty cat
    using assms(1)[of a dt ds am ty cat]
    by (auto simp: sends_def insert_bank_transaction_def bindE_def exec_write_def log_stmt_def
        apply_db_def Let_def split: option.splits)
  moreover have "sends P (insert_allocation st t f x)" for t f x
    unfolding insert_allocation_def by (intro sends_exec_write assms)
  ultimately show ?case
    using Cons by (simp add: sends_bindE)
qed

lemma sends_import_body:
  assumes "\<And>a dt ds am ty cat. P (InsertBankTransaction a dt ds am ty cat)"
    and "\<And>t f x. P (InsertAllocation t f x)"
    and "P Begin" and "P Commit" and "P Rollback"
  shows "sends P (import_body st rows)"
  unfolding sends_def
proof (intro allI impI)
  fix c :: "'a conn"
  assume c: "list_all P (sent c)"
  with assms(3) have b: "list_all P (sent (begin_txn c))"
    by (simp add: begin_txn_def log_stmt_def Let_def split: option.splits)
  have "sends P (bindE (import_rows st rows) (\<lambda>_. commit_txn st))"
    by (intro sends_bindE sends_import_rows sends_commit_txn assms)
  with b have "list_all P (sent (snd (bindE (import_rows st rows) (\<lambda>_. commit_txn st) (begin_txn c))))"
    by (simp add: sends_def)
  with assms(5) show "list_all P (sent (snd (import_body st rows c)))"
    by (auto simp: import_body_def rollback_txn_def log_stmt_def split: prod.splits sum.splits)
qed

lemma withUser_sends:
  assumes "sends P fn" and "P Begin" and "P (SetCurrentUser u)" and "P Commit" and "P Rollback"
  shows "list_all P (sent (snd (withUser st u fn d)))"
proof -
  let ?c = "log_stmt (SetCurrentUser u) (begin_txn (connect d))"
  have c: "list_all P (sent ?c)"
    using assms(2,3) by (simp add: log_stmt_def begin_txn_def connect_def Let_def)
  obtain x c1 where fn: "fn ?c = (x, c1)" by (cases "fn ?c")
  from assms(1) c fn have c1: "list_all P (sent c1)"
    by (auto simp: sends_def dest!: spec[of _ ?c])
  from sends_commit_txn[of P st, OF assms(4)] c1 have "list_all P (sent (snd (commit_txn st c1)))"
    by (simp add: sends_def)
  with c1 fn assms(5) show ?thesis
    by (auto simp: withUser_def Let_def rollback_txn_def log_stmt_def split: prod.splits sum.splits)
qed

lemma import_sends_no_scope_query:
  fixes js :: "'n::{zero,one,abs,ord} js"
  shows "list_all (\<lambda>s. \<not> is_scope_query s) (sent (snd (import_transactions js z st u dryRun upload d)))"
proof -
  have "list_all (\<lambda>s. \<not> is_scope_query s) (sent (snd (withUser st u (import_body st rows) d)))" for rows
    by (rule withUser_sends, rule sends_import_body) (simp_all add: is_scope_query_def)
  then have "list_all (\<lambda>s. \<not> is_scope_query s) (sent c)"
    if "withUser st u (import_body st rows) d = (x, c)" for rows x c
    using that by (metis snd_conv)
  then show ?thesis
    by (auto simp: import_transactions_def connect_def Let_def split: option.splits sum.splits prod.splits)
qed


lemma keeps_txn_insert_bank_transaction: "keeps_txn (insert_bank_transaction st a dt ds am ty cat)"
  by (auto simp: keeps_txn_def insert_bank_transaction_def bindE_def exec_write_def log_stmt_def
      apply_db_def Let_def)

lemma keeps_txn_import_rows: "keeps_txn (import_rows st rows)"
proof (induction rows)
  case Nil
  have "import_rows st [] = (\<lambda>c. (Inr (), c))" by (rule ext) simp
  then show ?case by (simp add: keeps_txn_return)
next
  case (Cons r rows)
  have "import_rows st (r # rows) =
     bindE (insert_bank_transaction st (row_account_id r) (row_date r) (row_description r)
              \<bar>row_amount r\<bar> (row_type r) (row_category_id r)) (\<lambda>tx.
     bindE (insert_allocation st tx (row_fund_id r) 1) (\<lambda>_.
     import_rows st rows))"
    by (rule ext) simp
  with Cons show ?case
    by (simp add: keeps_txn_bindE keeps_txn_insert_bank_transaction insert_allocation_def
        keeps_txn_exec_write)
qed

lemma insert_bank_transaction_ok:
  assumes "insert_bank_transaction st a dt ds am ty cat c = (Inr tx, c1)"
  shows "tx = uuid_cast (gen_random_uuid st (visible c))
         \<and> visible c1 = (visible c)\<lparr>bank_transactions := bank_transactions (visible c) @
              [\<lparr>bt_id = tx, bt_account_id = uuid_cast a, bt_tx_date = dt, bt_description = ds,
                bt_amount = am, bt_type = ty, bt_category_id = map_option uuid_cast cat\<rparr>]\<rparr>"
  using assms
  by (auto simp: insert_bank_transaction_def bindE_def Let_def split: prod.splits sum.splits
      dest!: exec_write_ok)

lemma import_rows_ok:
  "import_rows st rows c = (Inr u, c1) \<Longrightarrow>
   \<exists>ids. length ids = length rows \<and>
     visible c1 = (visible c)\<lparr>
       bank_transactions := bank_transactions (visible c) @ imported_transactions ids rows,
       transaction_allocations := transaction_allocations (visible c) @ imported_allocations ids rows\<rparr>"
proof (induction rows arbitrary: c)
  case Nil
  then show ?case by (simp add: imported_transactions_def imported_allocations_def)
next
  case (Cons r rows)
  from Cons.prems obtain tx c2 c3 where
    t: "insert_bank_transaction st (row_account_id r) (row_date r) (row_description r)
              \<bar>row_amount r\<bar> (row_type r) (row_category_id r) c = (Inr tx, c2)" and
    a: "insert_allocation st tx (row_fund_id r) 1 c2 = (Inr (), c3)" and
    rest: "import_rows st rows c3 = (Inr u, c1)"
    by (auto simp: bindE_def split: prod.splits sum.splits)
  from insert_bank_transaction_ok[OF t] have
    tx: "uuid_cast tx = tx" and
    v2: "visible c2 = (visible c)\<lparr>bank_transactions := bank_transactions (visible c) @
              [\<lparr>bt_id = tx, bt_account_id = uuid_cast (row_account_id r), bt_tx_date = row_date r,
                bt_description = row_description r, bt_amount = \<bar>row_amount r\<bar>,
                bt_type = row_type r, bt_category_id = map_option uuid_cast (row_category_id r)\<rparr>]\<rparr>"
    by (simp_all add: uuid_cast_idem)
  from a tx have v3: "visible c3 = (visible c2)\<lparr>transaction_allocations :=
      transaction_allocations (visible c2) @ [(tx, uuid_cast (row_fund_id r), 1)]\<rparr>"
    by (simp add: insert_allocation_def exec_write_ok)
  from Cons.IH[OF rest] obtain ids where
    l: "length ids = length rows" and
    v1: "visible c1 = (visible c3)\<lparr>
       bank_transactions := bank_transactions (visible c3) @ imported_transactions ids rows,
       transaction_allocations := transaction_allocations (visible c3) @ imported_allocations ids rows\<rparr>"
    by blast
  have "length (tx # ids) = length (r # rows)" using l by simp
  moreover have "visible c1 = (visible c)\<lparr>
       bank_transactions := bank_transactions (visible c) @ imported_transactions (tx # ids) (r # rows),
       transaction_allocations := transaction_allocations (visible c) @ imported_allocations (tx # ids) (r # rows)\<rparr>"
    by (simp add: v1 v3 v2 imported_transactions_def imported_allocations_def)
  ultimately show ?case by blast
qed

lemma import_committed:
  assumes "withUser st u (import_body st rows) d = (Inr x, c)"
  shows "\<exists>ids. length ids = length rows \<and>
     persisted c = d\<lparr>
       bank_transactions := bank_transactions d @ imported_transactions ids rows,
       transaction_allocations := transaction_allocations d @ imported_allocations ids rows\<rparr>"
proof -
  let ?c = "begin_txn (log_stmt (SetCurrentUser u) (begin_txn (connect d)))"
  have c: "txn ?c \<noteq> None" "visible ?c = d"
    by (simp_all add: log_stmt_def begin_txn_def connect_def visible_def Let_def)
  obtain y c1 where r: "import_rows st rows ?c = (y, c1)" by (cases "import_rows st rows ?c")
  from keeps_txn_import_rows[of st rows] c(1) r have t1: "txn c1 \<noteq> None"
    by (auto simp: keeps_txn_def dest!: spec[of _ ?c])
  from assms r t1 have y: "y = Inr ()" and p: "persisted c = visible c1"
    by (auto simp: withUser_def import_body_def bindE_def Let_def commit_txn_def rollback_txn_def
        log_stmt_def visible_def split: prod.splits sum.splits option.splits if_splits)
  from import_rows_ok[of st rows ?c "()" c1] r y c(2) p show ?thesis by simp
qed

lemma exec_write_accepted:
  "\<forall>d s. \<not> refuses st d s \<Longrightarrow> fst (exec_write st s f c) = Inr ()"
  by (simp add: exec_write_def Let_def)

lemma import_rows_accepted:
  "\<forall>d s. \<not> refuses st d s \<Longrightarrow> fst (import_rows st rows c) = Inr ()"
proof (induction rows arbitrary: c)
  case Nil
  then show ?case by simp
next
  case (Cons r rows)
  then show ?case
    by (auto simp: bindE_def insert_bank_transaction_def insert_allocation_def exec_write_def Let_def
        split: prod.splits sum.splits)
qed

lemma import_accepted:
  assumes "\<forall>d s. \<not> refuses st d s"
  shows "fst (withUser st u (import_body st rows) d) = Inr ()"
proof -
  let ?c = "begin_txn (log_stmt (SetCurrentUser u) (begin_txn (connect d)))"
  obtain y c1 where r: "import_rows st rows ?c = (y, c1)" by (cases "import_rows st rows ?c")
  from import_rows_accepted[OF assms, of rows ?c] r have y: "y = Inr ()" by simp
  from assms r y show ?thesis
    by (auto simp: withUser_def import_body_def bindE_def Let_def commit_txn_def
        split: prod.splits sum.splits option.splits)
qed

section \<open>Facts about the access clause\<close>

lemma is_admin_iff:
  "is_admin d userId \<longleftrightarrow>
     (\<exists>role name. (userId, role) \<in> set (user_roles d) \<and> (role, name) \<in> set (roles d)
        \<and> lower name \<in> {''admin'', ''owner''})"
  unfolding is_admin_def list_ex_iff by force

lemma set_allowed_funds: "set (allowed_funds d userId) = granted_funds d userId"
proof -
  have "snd g \<in> {Read, Write, Admin}" for g :: "uuid \<times> scope"
    by (cases "snd g") simp_all
  then show ?thesis
    by (auto simp: allowed_funds_def granted_funds_def image_iff) force
qed

lemma view_row_granted:
  "(u, f, s) \<in> set (v_effective_fund_access d) \<Longrightarrow> f \<in> granted_funds d u"
  by (auto simp: v_effective_fund_access_def granted_funds_def)

lemma filter_eq_distinct: "distinct xs \<Longrightarrow> length (filter (\<lambda>x. x = a) xs) \<le> 1"
  by (induction xs) (auto simp: filter_empty_conv)

lemma view_other_user:
  "u \<notin> set us \<Longrightarrow>
   filter (\<lambda>e. fst (snd e) = f \<and> fst e = u)
     (concat (map (\<lambda>u'. map (\<lambda>f'. (u', f', h u' f')) (fs u')) us)) = []"
  by (induction us) (auto simp: filter_empty_conv)

lemma view_one_user:
  "distinct us \<Longrightarrow>
   length (filter (\<lambda>e. fst (snd e) = f \<and> fst e = u)
     (concat (map (\<lambda>u'. map (\<lambda>f'. (u', f', h u' f')) (fs u')) us)))
   \<le> length (filter (\<lambda>f'. f' = f) (fs u))"
proof (induction us)
  case Nil
  then show ?case by simp
next
  case (Cons a us)
  show ?case
  proof (cases "a = u")
    case True
    with Cons.prems have "u \<notin> set us" by simp
    from view_other_user[OF this, of f h fs] True show ?thesis
      by (simp add: filter_map comp_def)
  next
    case False
    have "filter (\<lambda>e. fst (snd e) = f \<and> fst e = u) (map (\<lambda>f'. (a, f', h a f')) (fs a)) = []"
      using False by (auto simp: filter_empty_conv)
    with Cons show ?thesis by simp
  qed
qed

lemma view_unique:
  "length (filter (\<lambda>e. fst (snd e) = f \<and> fst e = u) (v_effective_fund_access d)) \<le> 1"
proof -
  have "length (filter (\<lambda>e. fst (snd e) = f \<and> fst e = u) (v_effective_fund_access d))
        \<le> length (filter (\<lambda>f'. f' = f) (remdups (map fst (role_grants d u))))"
    unfolding v_effective_fund_access_def
    by (rule view_one_user) simp
  also have "\<dots> \<le> 1" by (rule filter_eq_distinct) simp
  finally show ?thesis .
qed

lemma transactions_joined_admin:
  "map fst (filter (\<lambda>j. flt (fst j)) (transactions_joined d v userId)) = filter flt v"
proof -
  have one: "map fst (filter (\<lambda>j. flt (fst j))
        (case filter (\<lambda>e. fst (snd e) = va_fund_id r \<and> fst e = userId) (v_effective_fund_access d) of
           [] \<Rightarrow> [(r, None)] | es \<Rightarrow> map (\<lambda>e. (r, Some e)) es)) = (if flt r then [r] else [])" for r
  proof -
    let ?es = "filter (\<lambda>e. fst (snd e) = va_fund_id r \<and> fst e = userId) (v_effective_fund_access d)"
    from view_unique[of "va_fund_id r" userId d] have "?es = [] \<or> (\<exists>e. ?es = [e])"
      by (cases ?es) (auto simp: length_Suc_conv split: list.splits)
    then show ?thesis by auto
  qed
  show ?thesis
    unfolding transactions_joined_def
    by (induction v) (simp_all add: one)
qed

lemma transactions_joined_granted:
  assumes "(r, Some e) \<in> set (transactions_joined d v userId)"
  shows "va_fund_id r \<in> granted_funds d userId"
proof -
  from assms obtain r' where
    m: "(r, Some e) \<in> set (case filter (\<lambda>e. fst (snd e) = va_fund_id r' \<and> fst e = userId)
                                       (v_effective_fund_access d) of
                              [] \<Rightarrow> [(r', None)]
                            | es \<Rightarrow> map (\<lambda>e. (r', Some e)) es)"
    by (auto simp: transactions_joined_def)
  then have "r = r' \<and> e \<in> set (filter (\<lambda>e. fst (snd e) = va_fund_id r' \<and> fst e = userId)
                                       (v_effective_fund_access d))"
    by (cases "filter (\<lambda>e. fst (snd e) = va_fund_id r' \<and> fst e = userId) (v_effective_fund_access d)")
       auto
  then have "e \<in> set (v_effective_fund_access d)" "fst e = userId" "fst (snd e) = va_fund_id r"
    by auto
  moreover have "e = (fst e, fst (snd e), snd (snd e))" by simp
  ultimately have "(userId, va_fund_id r, snd (snd e)) \<in> set (v_effective_fund_access d)"
    by metis
  then show ?thesis by (rule view_row_granted)
qed


lemma in_set_page: "x \<in> set (page n m xs) \<Longrightarrow> x \<in> set xs"
  unfolding page_def by (meson in_set_dropD in_set_takeD)

section \<open>Facts about the totals of settlements\<close>








section \<open>Facts about the example data\<close>

lemma ex_counts:
  "writable_fund_count ex_db user_1 [fund_a, fund_b] = 1"
  "writable_fund_count ex_db user_1 [fund_a] = 1"
  "writable_fund_count ex_db user_2 [fund_a, fund_b] = 2"
  by code_simp+

lemma ex_distinct: "fund_a \<noteq> fund_b" "distinct [fund_a, fund_b]"
  by (simp_all add: fund_a_def fund_b_def)

section \<open>The gate on an empty fund set\<close>

text \<open>
  C10. Called with an empty list of funds, the gate returns at once for every user and
  every connection: it does not throw, and it sends no statement (the connection, with the
  statements sent so far, is returned as it was).
\<close>

theorem assertWriteForFunds_empty:
  "assertWriteForFunds userId [] c = (Inr (), c)"
  by (simp add: assertWriteForFunds_def)

section \<open>The check of the ratio sum\<close>

text \<open>
  C1. Where \<open>POST /transactions\<close> validates a set of allocations (the effective set, when
  it is not empty) and where \<open>PATCH /transactions/:id\<close> does (the array of the body, when
  no \<open>fund_id\<close> comes with it and it is not empty): if \<open>Math.abs(sum - 1) > 1e-9\<close> holds
  of the sum the route computes, the request throws status 400 with the message
  \<open>allocations ratio sum must be 1\<close>, the tables are as before, and no statement was sent
  (POST) or only \<open>begin\<close>, the marker of the user and \<open>rollback\<close> (PATCH): no insert, no
  update. If it does not hold, the request does not end in that error.
\<close>

theorem ratio_sum_check:
  fixes tol :: "'n::{zero,one,plus,minus,abs,ord}"
  shows
  "(effective_allocations input \<noteq> [] \<longrightarrow>
      (if ratio_sum_off tol (ratio_sum (effective_allocations input))
       then post_transaction st tol userId (Inr input) d =
              (Inl (HttpError 400 ''allocations ratio sum must be 1''),
               \<lparr>persisted = d, txn = None, sent = []\<rparr>)
       else fst (post_transaction st tol userId (Inr input) d) \<noteq>
              Inl (HttpError 400 ''allocations ratio sum must be 1'')))
   \<and> (is_uuid txId \<and> \<not> truthy (tp_fund_id body) \<and> tp_allocations body = Some allocations
        \<and> allocations \<noteq> [] \<longrightarrow>
      (if ratio_sum_off tol (ratio_sum allocations)
       then patch_transaction st tol is_uuid userId txId (Inr body) d =
              (Inl (HttpError 400 ''allocations ratio sum must be 1''),
               \<lparr>persisted = d, txn = None, sent = [Begin, SetCurrentUser userId, Rollback]\<rparr>)
       else fst (patch_transaction st tol is_uuid userId txId (Inr body) d) \<noteq>
              Inl (HttpError 400 ''allocations ratio sum must be 1'')))"
proof (intro conjI impI)
  assume ne: "effective_allocations input \<noteq> []"
  show "if ratio_sum_off tol (ratio_sum (effective_allocations input))
       then post_transaction st tol userId (Inr input) d =
              (Inl (HttpError 400 ''allocations ratio sum must be 1''),
               \<lparr>persisted = d, txn = None, sent = []\<rparr>)
       else fst (post_transaction st tol userId (Inr input) d) \<noteq>
              Inl (HttpError 400 ''allocations ratio sum must be 1'')"
  proof (cases "ratio_sum_off tol (ratio_sum (effective_allocations input))")
    case True
    with ne show ?thesis by (simp add: post_transaction_def Let_def connect_def)
  next
    case False
    have "fst (post_transaction st tol userId (Inr input) d) \<noteq>
              Inl (HttpError 400 ''allocations ratio sum must be 1'')"
    proof
      assume "fst (post_transaction st tol userId (Inr input) d) = Inl (HttpError 400 ''allocations ratio sum must be 1'')"
      then obtain c where "post_transaction st tol userId (Inr input) d = (Inl (HttpError 400 ''allocations ratio sum must be 1''), c)"
        by (cases "post_transaction st tol userId (Inr input) d") auto
      from post_errors[OF this ne False] show False by simp
    qed
    with False show ?thesis by simp
  qed
next
  assume h: "is_uuid txId \<and> \<not> truthy (tp_fund_id body) \<and> tp_allocations body = Some allocations
        \<and> allocations \<noteq> []"
  show "if ratio_sum_off tol (ratio_sum allocations)
       then patch_transaction st tol is_uuid userId txId (Inr body) d =
              (Inl (HttpError 400 ''allocations ratio sum must be 1''),
               \<lparr>persisted = d, txn = None, sent = [Begin, SetCurrentUser userId, Rollback]\<rparr>)
       else fst (patch_transaction st tol is_uuid userId txId (Inr body) d) \<noteq>
              Inl (HttpError 400 ''allocations ratio sum must be 1'')"
  proof (cases "ratio_sum_off tol (ratio_sum allocations)")
    case True
    with h have "patch_new_alloc tol body = Inl (HttpError 400 ''allocations ratio sum must be 1'')"
      by (simp add: patch_new_alloc_def)
    with h True show ?thesis
      by (simp add: patch_transaction_def withUser_def patch_body_def bindE_def Let_def
          connect_def begin_txn_def log_stmt_def rollback_txn_def)
  next
    case False
    with h have na: "patch_new_alloc tol body = Inr (Some allocations)"
      by (simp add: patch_new_alloc_def)
    have "fst (patch_transaction st tol is_uuid userId txId (Inr body) d) \<noteq>
              Inl (HttpError 400 ''allocations ratio sum must be 1'')"
    proof
      assume "fst (patch_transaction st tol is_uuid userId txId (Inr body) d) = Inl (HttpError 400 ''allocations ratio sum must be 1'')"
      then obtain c where "patch_transaction st tol is_uuid userId txId (Inr body) d = (Inl (HttpError 400 ''allocations ratio sum must be 1''), c)"
        by (cases "patch_transaction st tol is_uuid userId txId (Inr body) d") auto
      from patch_errors[OF this _ na] h show False by simp
    qed
    with False show ?thesis by simp
  qed
qed


theorem ratio_sum_check_witness:
  "post_transaction ex_store (1 / 10 ^ 9) user_1
       (Inr (ex_input (Some [(fund_a, 1 / 2), (fund_a, 1 / 3)]) None)) ex_db =
     (Inl (HttpError 400 ''allocations ratio sum must be 1''),
      \<lparr>persisted = ex_db, txn = None, sent = []\<rparr>)
   \<and> fst (post_transaction ex_store (1 / 10 ^ 9) user_1
       (Inr (ex_input (Some [(fund_a, 1 / 2), (fund_a, 1 / 2)]) None)) ex_db) \<noteq>
     Inl (HttpError 400 ''allocations ratio sum must be 1'')
   \<and> patch_transaction ex_store (1 / 10 ^ 9) uuid_shape user_1 tx_1
       (Inr (ex_patch (Some [(fund_a, 1 / 2), (fund_a, 1 / 3)]) None)) ex_db =
     (Inl (HttpError 400 ''allocations ratio sum must be 1''),
      \<lparr>persisted = ex_db, txn = None, sent = [Begin, SetCurrentUser user_1, Rollback]\<rparr>)
   \<and> fst (patch_transaction ex_store (1 / 10 ^ 9) uuid_shape user_1 tx_1
       (Inr (ex_patch (Some [(fund_a, 1 / 2), (fund_a, 1 / 2)]) None)) ex_db) \<noteq>
     Inl (HttpError 400 ''allocations ratio sum must be 1'')"
proof -
  let ?bad = "[(fund_a, 1 / 2), (fund_a, 1 / 3 :: rat)]"
  let ?good = "[(fund_a, 1 / 2), (fund_a, 1 / 2 :: rat)]"
  have u: "uuid_shape tx_1" by code_simp
  have bad: "ratio_sum_off (1 / 10 ^ 9 :: rat) (ratio_sum ?bad)"
    by (simp add: ratio_sum_off_def ratio_sum_def)
  have good: "\<not> ratio_sum_off (1 / 10 ^ 9 :: rat) (ratio_sum ?good)"
    by (simp add: ratio_sum_off_def ratio_sum_def)
  have eb: "effective_allocations (ex_input (Some ?bad) None) = ?bad"
    and eg: "effective_allocations (ex_input (Some ?good) None) = ?good"
    by (simp_all add: effective_allocations_def ex_input_def)
  have pb: "\<not> truthy (tp_fund_id (ex_patch (Some ?bad) None))" "tp_allocations (ex_patch (Some ?bad) None) = Some ?bad"
    and pg: "\<not> truthy (tp_fund_id (ex_patch (Some ?good) None))" "tp_allocations (ex_patch (Some ?good) None) = Some ?good"
    by (simp_all add: ex_patch_def)
  note t = ratio_sum_check[where tol = "1 / 10 ^ 9 :: rat" and st = ex_store and userId = user_1
      and d = ex_db and is_uuid = uuid_shape and txId = tx_1]
  from t[where input = "ex_input (Some ?bad) None" and body = "ex_patch (Some ?bad) None" and allocations = ?bad]
       t[where input = "ex_input (Some ?good) None" and body = "ex_patch (Some ?good) None" and allocations = ?good]
  show ?thesis
    using u bad good pb pg by (simp add: eb eg)
qed

section \<open>The effective allocations of a new transaction\<close>

text \<open>
  C2. For every body of \<open>POST /transactions\<close>: the effective allocations are the array
  \<open>allocations\<close> when it is not empty; otherwise the single pair of \<open>fund_id\<close> and ratio 1
  when \<open>fund_id\<close> is there; otherwise nothing. When they are empty the request throws
  status 400 and nothing was sent to the store: no row of a transaction is created.
\<close>

theorem post_effective_allocations:
  fixes input :: "'n::{zero,one,plus,minus,abs,ord} TxInput"
  shows
  "(ti_allocations input = Some a \<and> a \<noteq> [] \<longrightarrow> effective_allocations input = a)
   \<and> ((ti_allocations input = None \<or> ti_allocations input = Some []) \<and> ti_fund_id input = Some f \<and> f \<noteq> []
        \<longrightarrow> effective_allocations input = [(f, 1)])
   \<and> ((ti_allocations input = None \<or> ti_allocations input = Some []) \<and> \<not> truthy (ti_fund_id input)
        \<longrightarrow> effective_allocations input = [])
   \<and> (effective_allocations input = [] \<longrightarrow>
        post_transaction st tol userId (Inr input) d =
          (Inl (HttpError 400 ''a fund is required (use fund_id or allocations)''),
           \<lparr>persisted = d, txn = None, sent = []\<rparr>))"
  by (cases "ti_allocations input")
     (auto simp: effective_allocations_def post_transaction_def connect_def Let_def)

theorem post_effective_allocations_witness:
  "effective_allocations (ex_input (Some [(fund_a, 1 / 2), (fund_b, 1 / 2)]) (Some fund_a)) =
     [(fund_a, 1 / 2), (fund_b, 1 / 2)]
   \<and> effective_allocations (ex_input (Some []) (Some fund_a)) = [(fund_a, 1)]
   \<and> effective_allocations (ex_input None None) = []
   \<and> post_transaction ex_store (1 / 10 ^ 9) user_1 (Inr (ex_input None None)) ex_db =
       (Inl (HttpError 400 ''a fund is required (use fund_id or allocations)''),
        \<lparr>persisted = ex_db, txn = None, sent = []\<rparr>)"
proof -
  have fa: "fund_a \<noteq> []" by (simp add: fund_a_def)
  note t = post_effective_allocations[where st = ex_store and tol = "1 / 10 ^ 9 :: rat"
      and userId = user_1 and d = ex_db]
  from t[where input = "ex_input (Some [(fund_a, 1 / 2), (fund_b, 1 / 2)]) (Some fund_a)"
            and a = "[(fund_a, 1 / 2), (fund_b, 1 / 2)]" and f = fund_a]
  have 1: "effective_allocations (ex_input (Some [(fund_a, 1 / 2), (fund_b, 1 / 2)]) (Some fund_a)) =
     [(fund_a, 1 / 2), (fund_b, 1 / 2)]"
    by (simp add: ex_input_def)
  from t[where input = "ex_input (Some []) (Some fund_a)" and f = fund_a and a = "[]"] fa
  have 2: "effective_allocations (ex_input (Some []) (Some fund_a)) = [(fund_a, 1)]"
    by (simp add: ex_input_def)
  from t[where input = "ex_input None None" and f = fund_a and a = "[]"]
  have 3: "effective_allocations (ex_input None None) = []"
    and 4: "post_transaction ex_store (1 / 10 ^ 9) user_1 (Inr (ex_input None None)) ex_db =
       (Inl (HttpError 400 ''a fund is required (use fund_id or allocations)''),
        \<lparr>persisted = ex_db, txn = None, sent = []\<rparr>)"
    by (simp_all add: ex_input_def)
  from 1 2 3 4 show ?thesis by simp
qed

section \<open>The gate fails closed\<close>

text \<open>
  C4. For every non-empty list of distinct funds, the gate throws status 403 exactly when
  the number of requested funds on which the user has write or admin scope differs from
  the number of requested funds. Where it throws in \<open>POST /transactions\<close> and in
  \<open>PATCH /transactions/:id\<close>, the tables are as before and the only statements sent are
  \<open>begin\<close>, the marker of the user, the count and \<open>rollback\<close>: nothing is written for the
  funds the user may write.
\<close>

theorem assertWriteForFunds_fails_closed:
  fixes tol :: "'n::{zero,one,plus,minus,abs,ord}"
  shows
  "(fundIds \<noteq> [] \<and> distinct fundIds \<longrightarrow>
      (fst (assertWriteForFunds userId fundIds c) =
         Inl (HttpError 403 ''forbidden: missing write/admin on one or more funds'')
       \<longleftrightarrow> card (writable_funds (visible c) userId (set fundIds)) \<noteq> card (set fundIds)))
   \<and> (effective_allocations input \<noteq> []
        \<and> \<not> ratio_sum_off tol (ratio_sum (effective_allocations input))
        \<and> card (writable_funds d userId (set (map fst (effective_allocations input))))
             \<noteq> card (set (map fst (effective_allocations input))) \<longrightarrow>
      post_transaction st tol userId (Inr input) d =
        (Inl (HttpError 403 ''forbidden: missing write/admin on one or more funds''),
         \<lparr>persisted = d, txn = None,
          sent = [Begin, SetCurrentUser userId,
                  SelectWritableFundCount userId (uniq (map fst (effective_allocations input))),
                  Rollback]\<rparr>))
   \<and> (is_uuid txId \<and> patch_new_alloc tol body = Inr (Some na)
        \<and> card (writable_funds d userId (set (map fst na))) \<noteq> card (set (map fst na)) \<longrightarrow>
      patch_transaction st tol is_uuid userId txId (Inr body) d =
        (Inl (HttpError 403 ''forbidden: missing write/admin on one or more funds''),
         \<lparr>persisted = d, txn = None,
          sent = [Begin, SetCurrentUser userId,
                  SelectWritableFundCount userId (uniq (map fst na)), Rollback]\<rparr>))"
proof (intro conjI impI)
  assume h: "fundIds \<noteq> [] \<and> distinct fundIds"
  then have "length fundIds = card (set fundIds)" by (simp add: distinct_card)
  with h show "fst (assertWriteForFunds userId fundIds c) =
         Inl (HttpError 403 ''forbidden: missing write/admin on one or more funds'')
       \<longleftrightarrow> card (writable_funds (visible c) userId (set fundIds)) \<noteq> card (set fundIds)"
    by (simp add: assertWriteForFunds_result)
next
  assume "effective_allocations input \<noteq> []
        \<and> \<not> ratio_sum_off tol (ratio_sum (effective_allocations input))
        \<and> card (writable_funds d userId (set (map fst (effective_allocations input))))
             \<noteq> card (set (map fst (effective_allocations input)))"
  then show "post_transaction st tol userId (Inr input) d =
        (Inl (HttpError 403 ''forbidden: missing write/admin on one or more funds''),
         \<lparr>persisted = d, txn = None,
          sent = [Begin, SetCurrentUser userId,
                  SelectWritableFundCount userId (uniq (map fst (effective_allocations input))),
                  Rollback]\<rparr>)"
    by (intro post_gate_rejects) simp_all
next
  assume "is_uuid txId \<and> patch_new_alloc tol body = Inr (Some na)
        \<and> card (writable_funds d userId (set (map fst na))) \<noteq> card (set (map fst na))"
  then show "patch_transaction st tol is_uuid userId txId (Inr body) d =
        (Inl (HttpError 403 ''forbidden: missing write/admin on one or more funds''),
         \<lparr>persisted = d, txn = None,
          sent = [Begin, SetCurrentUser userId,
                  SelectWritableFundCount userId (uniq (map fst na)), Rollback]\<rparr>)"
    by (intro patch_gate_rejects) simp_all
qed

theorem assertWriteForFunds_fails_closed_witness:
  "fst (assertWriteForFunds user_1 [fund_a, fund_b] (connect ex_db)) =
     Inl (HttpError 403 ''forbidden: missing write/admin on one or more funds'')
   \<and> fst (assertWriteForFunds user_1 [fund_a] (connect ex_db)) \<noteq>
     Inl (HttpError 403 ''forbidden: missing write/admin on one or more funds'')
   \<and> post_transaction ex_store (1 / 10 ^ 9) user_1
       (Inr (ex_input (Some [(fund_a, 1 / 2), (fund_b, 1 / 2)]) None)) ex_db =
       (Inl (HttpError 403 ''forbidden: missing write/admin on one or more funds''),
        \<lparr>persisted = ex_db, txn = None,
         sent = [Begin, SetCurrentUser user_1, SelectWritableFundCount user_1 [fund_a, fund_b],
                 Rollback]\<rparr>)
   \<and> patch_transaction ex_store (1 / 10 ^ 9) uuid_shape user_1 tx_1
       (Inr (ex_patch (Some [(fund_a, 1 / 2), (fund_b, 1 / 2)]) None)) ex_db =
       (Inl (HttpError 403 ''forbidden: missing write/admin on one or more funds''),
        \<lparr>persisted = ex_db, txn = None,
         sent = [Begin, SetCurrentUser user_1, SelectWritableFundCount user_1 [fund_a, fund_b],
                 Rollback]\<rparr>)"
proof -
  let ?al = "[(fund_a, 1 / 2), (fund_b, 1 / 2 :: rat)]"
  have v: "visible (connect ex_db) = ex_db" by (simp add: visible_def connect_def)
  have c2: "card (writable_funds ex_db user_1 (set [fund_a, fund_b])) = 1"
    and c1: "card (writable_funds ex_db user_1 (set [fund_a])) = 1"
    using ex_counts by (simp_all only: writable_fund_count_card)
  have k2: "card (set [fund_a, fund_b]) = 2" and k1: "card (set [fund_a]) = 1"
    using ex_distinct by simp_all
  have u: "uuid_shape tx_1" by code_simp
  have e: "effective_allocations (ex_input (Some ?al) None) = ?al"
    by (simp add: effective_allocations_def ex_input_def)
  have s: "\<not> ratio_sum_off (1 / 10 ^ 9 :: rat) (ratio_sum ?al)"
    by (simp add: ratio_sum_off_def ratio_sum_def)
  have p: "patch_new_alloc (1 / 10 ^ 9 :: rat) (ex_patch (Some ?al) None) = Inr (Some ?al)"
    using s by (simp add: patch_new_alloc_def ex_patch_def)
  note t = assertWriteForFunds_fails_closed[where tol = "1 / 10 ^ 9 :: rat" and st = ex_store
      and userId = user_1 and d = ex_db and c = "connect ex_db" and is_uuid = uuid_shape and txId = tx_1
      and input = "ex_input (Some ?al) None" and body = "ex_patch (Some ?al) None" and na = ?al]
  from t[where fundIds = "[fund_a, fund_b]"] t[where fundIds = "[fund_a]"]
  show ?thesis
    using v c1 c2 k1 k2 u s p ex_distinct by (simp add: e)
qed

section \<open>Replacing the allocations of a transaction\<close>

text \<open>
  C6. A \<open>PATCH /transactions/:id\<close> that carries new allocations ends with no transaction
  open, and either it threw and the committed tables are those before the request (the
  former allocations are all there), or it returned and the allocations of the
  transaction are exactly the new ones, after those of the other transactions. No
  outcome commits a part of the new set.
\<close>

theorem patch_replaces_allocations_atomically:
  fixes tol :: "'n::{zero,one,plus,minus,abs,ord}"
  assumes "is_uuid txId" and "patch_new_alloc tol body = Inr (Some na)"
    and "patch_transaction st tol is_uuid userId txId (Inr body) d = (r, c)"
  shows "txn c = None \<and>
         ((\<exists>e. r = Inl e) \<and> persisted c = d
          \<or> r = Inr () \<and>
            transaction_allocations (persisted c) =
              filter (\<lambda>row. fst row \<noteq> uuid_cast txId) (transaction_allocations d)
              @ map (\<lambda>a. (uuid_cast txId, uuid_cast (fst a), snd a)) na)"
proof -
  from assms(1,3) have w: "withUser st userId (patch_body st tol userId txId body) d = (r, c)"
    by (simp add: patch_transaction_def)
  have closed: "txn c = None"
    using withUser_txn_closed[of st userId "patch_body st tol userId txId body" d] w by simp
  show ?thesis
  proof (cases r)
    case (Inl e)
    with w have "persisted c = d"
      using withUser_throw_keeps[OF keeps_txn_patch_body[of st tol userId txId body], of st userId d e]
      by simp
    with Inl closed show ?thesis by simp
  next
    case (Inr u)
    with w obtain c1 where
      b: "patch_body st tol userId txId body (log_stmt (SetCurrentUser userId) (begin_txn (connect d))) = (Inr u, c1)"
      and p: "persisted c = visible c1"
      using withUser_ok[OF keeps_txn_patch_body[of st tol userId txId body], of st userId d u c] by auto
    from patch_body_ok[OF assms(2) b] p Inr closed show ?thesis by (simp add: visible_in_withUser)
  qed
qed

theorem patch_replaces_allocations_atomically_witness:
  "fst (patch_transaction ex_store_no_b (1 / 10 ^ 9) uuid_shape user_2 tx_1
         (Inr (ex_patch (Some [(fund_a, 1 / 2), (fund_b, 1 / 2)]) None)) ex_db) = Inl DbError
   \<and> persisted (snd (patch_transaction ex_store_no_b (1 / 10 ^ 9) uuid_shape user_2 tx_1
         (Inr (ex_patch (Some [(fund_a, 1 / 2), (fund_b, 1 / 2)]) None)) ex_db)) = ex_db
   \<and> transaction_allocations (persisted (snd (patch_transaction ex_store_no_b (1 / 10 ^ 9)
         uuid_shape user_2 tx_1
         (Inr (ex_patch (Some [(fund_a, 1 / 2), (fund_b, 1 / 2)]) None)) ex_db))) =
       [(tx_1, fund_a, 1)]
   \<and> fst (patch_transaction ex_store (1 / 10 ^ 9) uuid_shape user_2 tx_1
         (Inr (ex_patch (Some [(fund_a, 1 / 2), (fund_b, 1 / 2)]) None)) ex_db) = Inr ()
   \<and> transaction_allocations (persisted (snd (patch_transaction ex_store (1 / 10 ^ 9)
         uuid_shape user_2 tx_1
         (Inr (ex_patch (Some [(fund_a, 1 / 2), (fund_b, 1 / 2)]) None)) ex_db))) =
       [(tx_1, fund_a, 1 / 2), (tx_1, fund_b, 1 / 2)]"
proof -
  let ?al = "[(fund_a, 1 / 2), (fund_b, 1 / 2 :: rat)]"
  let ?body = "ex_patch (Some ?al) None"
  let ?refused = "patch_transaction ex_store_no_b (1 / 10 ^ 9) uuid_shape user_2 tx_1 (Inr ?body) ex_db"
  let ?accepted = "patch_transaction ex_store (1 / 10 ^ 9) uuid_shape user_2 tx_1 (Inr ?body) ex_db"
  have u: "uuid_shape tx_1" by code_simp
  have s: "\<not> ratio_sum_off (1 / 10 ^ 9 :: rat) (ratio_sum ?al)"
    by (simp add: ratio_sum_off_def ratio_sum_def)
  have p: "patch_new_alloc (1 / 10 ^ 9 :: rat) ?body = Inr (Some ?al)"
    using s by (simp add: patch_new_alloc_def ex_patch_def)
  have r1: "fst ?refused = Inl DbError" by code_simp
  have r2: "fst ?accepted = Inr ()" by code_simp
  have old: "transaction_allocations ex_db = [(tx_1, fund_a, 1)]" by (simp add: ex_db_def)
  have cast: "uuid_cast tx_1 = tx_1" "uuid_cast fund_a = fund_a" "uuid_cast fund_b = fund_b"
    by code_simp+
  from patch_replaces_allocations_atomically[where is_uuid = uuid_shape and txId = tx_1
         and tol = "1 / 10 ^ 9 :: rat" and body = ?body and na = ?al and st = ex_store_no_b
         and userId = user_2 and d = ex_db and r = "fst ?refused" and c = "snd ?refused", OF u p]
       r1
  have a: "persisted (snd ?refused) = ex_db" by simp
  from patch_replaces_allocations_atomically[where is_uuid = uuid_shape and txId = tx_1
         and tol = "1 / 10 ^ 9 :: rat" and body = ?body and na = ?al and st = ex_store
         and userId = user_2 and d = ex_db and r = "fst ?accepted" and c = "snd ?accepted", OF u p]
       r2
  have b: "transaction_allocations (persisted (snd ?accepted)) =
      [(tx_1, fund_a, 1 / 2), (tx_1, fund_b, 1 / 2)]"
    by (simp add: old cast)
  from r1 r2 a b old show ?thesis by simp
qed

section \<open>The loose parser of amounts: separators\<close>



section \<open>A batch with an invalid row, and dry runs\<close>




section \<open>The import does not look at fund grants\<close>

text \<open>
  C5. Let the constraints of the store and its naming of new rows not read the access
  tables. Then the import by one user on a database and the import of the same upload by
  any other user on that database with any other access tables give the same answer, the
  same committed tables up to the access tables, and the same statements up to the marker
  of the user. No statement of the fund-scope gate is among them. When the answer is that
  rows were inserted, the committed tables are the former ones with, for each parsed row
  in order, one transaction (its amount unsigned) and one allocation of ratio 1 of that
  transaction to the fund of the row; and a valid batch, not in dry-run mode, with a store
  that refuses nothing, is answered so.
\<close>

theorem import_ignores_fund_grants:
  fixes js :: "'n::{zero,one,abs,ord} js"
  assumes "\<forall>d s. refuses st (with_access ur rs rfa d) s = refuses st d s"
    and "\<forall>d. gen_random_uuid st (with_access ur rs rfa d) = gen_random_uuid st d"
  shows
  "import_transactions js z st other dryRun upload (with_access ur rs rfa d) =
     (fst (import_transactions js z st caller dryRun upload d),
      relabel (with_access ur rs rfa) other (snd (import_transactions js z st caller dryRun upload d)))
   \<and> list_all (\<lambda>s. \<not> is_scope_query s) (sent (snd (import_transactions js z st caller dryRun upload d)))
   \<and> (upload = Some (Inr rawRows)
        \<and> fst (import_transactions js z st caller dryRun upload d) = (200, Inserted n) \<longrightarrow>
      n = length (fst (validate_rows js z 0 rawRows))
      \<and> (\<exists>ids. length ids = n
            \<and> persisted (snd (import_transactions js z st caller dryRun upload d)) =
                d\<lparr>bank_transactions := bank_transactions d
                      @ imported_transactions ids (fst (validate_rows js z 0 rawRows)),
                  transaction_allocations := transaction_allocations d
                      @ imported_allocations ids (fst (validate_rows js z 0 rawRows))\<rparr>))
   \<and> (snd (validate_rows js z 0 rawRows) = [] \<and> (\<forall>d s. \<not> refuses st d s) \<longrightarrow>
        fst (import_transactions js z st caller False (Some (Inr rawRows)) d) =
          (200, Inserted (length rawRows)))"
proof -
  have A: "import_transactions js z st other dryRun upload (with_access ur rs rfa d) =
     (fst (import_transactions js z st caller dryRun upload d),
      relabel (with_access ur rs rfa) other (snd (import_transactions js z st caller dryRun upload d)))"
    using assms by (intro import_transactions_relabel) simp_all
  have B: "list_all (\<lambda>s. \<not> is_scope_query s) (sent (snd (import_transactions js z st caller dryRun upload d)))"
    by (rule import_sends_no_scope_query)
  have C: "n = length (fst (validate_rows js z 0 rawRows))
      \<and> (\<exists>ids. length ids = n
            \<and> persisted (snd (import_transactions js z st caller dryRun upload d)) =
                d\<lparr>bank_transactions := bank_transactions d
                      @ imported_transactions ids (fst (validate_rows js z 0 rawRows)),
                  transaction_allocations := transaction_allocations d
                      @ imported_allocations ids (fst (validate_rows js z 0 rawRows))\<rparr>)"
    if h: "upload = Some (Inr rawRows)
        \<and> fst (import_transactions js z st caller dryRun upload d) = (200, Inserted n)"
  proof -
  obtain rows errors where v: "validate_rows js z 0 rawRows = (rows, errors)"
    by (cases "validate_rows js z 0 rawRows")
  from h v obtain x c where
    w: "withUser st caller (import_body st rows) d = (Inr x, c)" and
    i: "import_transactions js z st caller dryRun upload d = ((200, Inserted (length rows)), c)" and
    n: "n = length rows"
    by (auto simp: import_transactions_def Let_def split: if_splits prod.splits sum.splits)
  from import_committed[OF w] obtain ids where
    "length ids = length rows" and
    "persisted c = d\<lparr>
       bank_transactions := bank_transactions d @ imported_transactions ids rows,
       transaction_allocations := transaction_allocations d @ imported_allocations ids rows\<rparr>"
    by blast
  with v i n show ?thesis
    by auto
  qed
  have D: "fst (import_transactions js z st caller False (Some (Inr rawRows)) d) =
          (200, Inserted (length rawRows))"
    if h: "snd (validate_rows js z 0 rawRows) = [] \<and> (\<forall>d s. \<not> refuses st d s)"
  proof -
    obtain rows errors where v: "validate_rows js z 0 rawRows = (rows, errors)"
      by (cases "validate_rows js z 0 rawRows")
    from h v have e: "errors = []" by simp
    from h have "\<not> (\<exists>r \<in> set rawRows. isl (parse_row js z r))"
      using validate_rows_errors_nonempty[of js z 0 rawRows] by simp
    then have "filter (\<lambda>r. \<not> isl (parse_row js z r)) rawRows = rawRows"
      by (simp add: filter_id_conv)
    with v have l: "length rows = length rawRows"
      using length_valid_rows[of js z 0 rawRows] by simp
    from h import_accepted[of st caller rows d] have "fst (withUser st caller (import_body st rows) d) = Inr ()"
      by simp
    with v e l show ?thesis
      by (auto simp: import_transactions_def split: prod.splits sum.splits)
  qed
  from A B C D show ?thesis by (intro conjI impI) auto
qed

theorem import_ignores_fund_grants_witness:
  "fst (import_transactions js_ref ex_zod ex_store_js user_1 False
         (Some (Inr [ex_row ''40.000,00'' ''Debit'' fund_b, ex_row ''120'' ''credit'' fund_a]))
         ex_ledger) = (200, Inserted 2)
   \<and> fst (import_transactions js_ref ex_zod ex_store_js user_2 False
         (Some (Inr [ex_row ''40.000,00'' ''Debit'' fund_b, ex_row ''120'' ''credit'' fund_a]))
         (with_access [(user_2, role_2)] [(role_2, ''Treasurer'')]
            [(role_2, fund_a, Write), (role_2, fund_b, Admin)] ex_ledger)) = (200, Inserted 2)
   \<and> transaction_allocations (persisted (snd (import_transactions js_ref ex_zod ex_store_js user_1 False
         (Some (Inr [ex_row ''40.000,00'' ''Debit'' fund_b, ex_row ''120'' ''credit'' fund_a]))
         ex_ledger))) = [(tx_1, fund_b, 1), (tx_new, fund_a, 1)]
   \<and> transaction_allocations (persisted (snd (import_transactions js_ref ex_zod ex_store_js user_2 False
         (Some (Inr [ex_row ''40.000,00'' ''Debit'' fund_b, ex_row ''120'' ''credit'' fund_a]))
         (with_access [(user_2, role_2)] [(role_2, ''Treasurer'')]
            [(role_2, fund_a, Write), (role_2, fund_b, Admin)] ex_ledger)))) =
       [(tx_1, fund_b, 1), (tx_new, fund_a, 1)]
   \<and> list_all (\<lambda>s. \<not> is_scope_query s) (sent (snd (import_transactions js_ref ex_zod ex_store_js
         user_1 False
         (Some (Inr [ex_row ''40.000,00'' ''Debit'' fund_b, ex_row ''120'' ''credit'' fund_a]))
         ex_ledger)))"
proof -
  let ?up = "Some (Inr [ex_row ''40.000,00'' ''Debit'' fund_b, ex_row ''120'' ''credit'' fund_a])
               :: (string + raw list) option"
  let ?one = "import_transactions js_ref ex_zod ex_store_js user_1 False ?up ex_ledger"
  have h1: "\<forall>d s. refuses ex_store_js (with_access [(user_2, role_2)] [(role_2, ''Treasurer'')]
            [(role_2, fund_a, Write), (role_2, fund_b, Admin)] d) s = refuses ex_store_js d s"
    by (simp add: ex_store_js_def)
  have h2: "\<forall>d. gen_random_uuid ex_store_js (with_access [(user_2, role_2)] [(role_2, ''Treasurer'')]
            [(role_2, fund_a, Write), (role_2, fund_b, Admin)] d) = gen_random_uuid ex_store_js d"
    by (simp add: ex_store_js_def with_access_def)
  have valid: "snd (validate_rows js_ref ex_zod 0
      [ex_row ''40.000,00'' ''Debit'' fund_b, ex_row ''120'' ''credit'' fund_a]) = []"
    by code_simp
  have acc: "\<forall>d s. \<not> refuses ex_store_js d s" by (simp add: ex_store_js_def)
  have al: "transaction_allocations (persisted (snd ?one)) = [(tx_1, fund_b, 1), (tx_new, fund_a, 1)]"
    by code_simp
  note t = import_ignores_fund_grants[OF h1 h2, where js = js_ref and z = ex_zod and caller = user_1
      and other = user_2 and dryRun = False and upload = ?up and d = ex_ledger
      and rawRows = "[ex_row ''40.000,00'' ''Debit'' fund_b, ex_row ''120'' ''credit'' fund_a]"]
  note same = t[THEN conjunct1]
  note quiet = t[THEN conjunct2, THEN conjunct1]
  from t[THEN conjunct2, THEN conjunct2, THEN conjunct2] valid acc
  have a1: "fst ?one = (200, Inserted 2)" by simp
  from same a1 have a2: "fst (import_transactions js_ref ex_zod ex_store_js user_2 False ?up
         (with_access [(user_2, role_2)] [(role_2, ''Treasurer'')]
            [(role_2, fund_a, Write), (role_2, fund_b, Admin)] ex_ledger)) = (200, Inserted 2)"
    by simp
  from same al have a4: "transaction_allocations (persisted (snd (import_transactions js_ref ex_zod
         ex_store_js user_2 False ?up
         (with_access [(user_2, role_2)] [(role_2, ''Treasurer'')]
            [(role_2, fund_a, Write), (role_2, fund_b, Admin)] ex_ledger)))) =
       [(tx_1, fund_b, 1), (tx_new, fund_a, 1)]"
    by (simp add: relabel_def with_access_def)
  from a1 a2 al a4 quiet show ?thesis by (intro conjI)
qed

section \<open>What the list queries show\<close>

text \<open>
  C3. A user is an administrator for the list queries exactly when it holds a role whose
  name, in lower case, is \<open>admin\<close> or \<open>owner\<close>. For such a user each of the four list
  queries (transactions, invoices, payments, settlements) answers what it would answer
  with no access clause at all: every row that passes the filters of the request, in
  order, within the page. For any other user every row any of the four answers is of a
  fund granted to the user through some role: no row of a fund that is not granted.
\<close>

theorem lists_respect_fund_grants:
  "(is_admin d userId \<longleftrightarrow>
      (\<exists>role name. (userId, role) \<in> set (user_roles d) \<and> (role, name) \<in> set (roles d)
         \<and> lower name \<in> {''admin'', ''owner''}))
   \<and> (is_admin d userId \<longrightarrow>
        transactions_list d v userId ft kt limit offset =
          page (case limit of Some n \<Rightarrow> n | None \<Rightarrow> 1000) (case offset of Some m \<Rightarrow> m | None \<Rightarrow> 0)
            (sort_key kt (filter ft v))
        \<and> facturas_list d docs userId ff kf n m = page n m (sort_key kf (filter ff (facturas docs)))
        \<and> payments_list d docs userId fp kp n m = page n m (sort_key kp (filter fp (payments docs)))
        \<and> liquidaciones_list d docs userId fl kl n m =
            page n m (map (\<lambda>b. (b, total_final (l_ingreso_banco (snd b)) (l_impositivo (snd b)) (fst b)))
                          (sort_key kl (filter fl (resumen_join docs)))))
   \<and> (\<not> is_admin d userId \<longrightarrow>
        (\<forall>r \<in> set (transactions_list d v userId ft kt limit offset). va_fund_id r \<in> granted_funds d userId)
        \<and> (\<forall>f \<in> set (facturas_list d docs userId ff kf n m). f_fund_id f \<in> granted_funds d userId)
        \<and> (\<forall>p \<in> set (payments_list d docs userId fp kp n m). p_fund_id p \<in> granted_funds d userId)
        \<and> (\<forall>x \<in> set (liquidaciones_list d docs userId fl kl n m).
              r_fund_id (fst (fst x)) \<in> granted_funds d userId))"
proof (intro conjI impI)
  show "is_admin d userId \<longleftrightarrow>
      (\<exists>role name. (userId, role) \<in> set (user_roles d) \<and> (role, name) \<in> set (roles d)
         \<and> lower name \<in> {''admin'', ''owner''})"
    by (rule is_admin_iff)
next
  assume a: "is_admin d userId"
  have "map fst (filter (\<lambda>j. (True \<or> snd j \<noteq> None) \<and> ft (fst j)) (transactions_joined d v userId))
        = filter ft v"
    using transactions_joined_admin[of ft d v userId] by simp
  with a show "transactions_list d v userId ft kt limit offset =
          page (case limit of Some n \<Rightarrow> n | None \<Rightarrow> 1000) (case offset of Some m \<Rightarrow> m | None \<Rightarrow> 0)
            (sort_key kt (filter ft v))"
    by (simp add: transactions_list_def)
  from a show "facturas_list d docs userId ff kf n m = page n m (sort_key kf (filter ff (facturas docs)))"
    by (simp add: facturas_list_def)
  from a show "payments_list d docs userId fp kp n m = page n m (sort_key kp (filter fp (payments docs)))"
    by (simp add: payments_list_def)
  from a show "liquidaciones_list d docs userId fl kl n m =
            page n m (map (\<lambda>b. (b, total_final (l_ingreso_banco (snd b)) (l_impositivo (snd b)) (fst b)))
                          (sort_key kl (filter fl (resumen_join docs))))"
    by (simp add: liquidaciones_list_def)
next
  assume na: "\<not> is_admin d userId"
  show "\<forall>r \<in> set (transactions_list d v userId ft kt limit offset). va_fund_id r \<in> granted_funds d userId"
  proof
    fix r assume "r \<in> set (transactions_list d v userId ft kt limit offset)"
    with na have "r \<in> set (map fst (filter (\<lambda>j. snd j \<noteq> None \<and> ft (fst j)) (transactions_joined d v userId)))"
      by (auto simp: transactions_list_def Let_def dest!: in_set_page)
    then obtain e where "(r, Some e) \<in> set (transactions_joined d v userId)" by auto
    then show "va_fund_id r \<in> granted_funds d userId" by (rule transactions_joined_granted)
  qed
  show "\<forall>f \<in> set (facturas_list d docs userId ff kf n m). f_fund_id f \<in> granted_funds d userId"
    using na by (auto simp: facturas_list_def set_allowed_funds dest!: in_set_page)
  show "\<forall>p \<in> set (payments_list d docs userId fp kp n m). p_fund_id p \<in> granted_funds d userId"
    using na by (auto simp: payments_list_def set_allowed_funds dest!: in_set_page)
  show "\<forall>x \<in> set (liquidaciones_list d docs userId fl kl n m).
              r_fund_id (fst (fst x)) \<in> granted_funds d userId"
    using na by (auto simp: liquidaciones_list_def set_allowed_funds Let_def dest!: in_set_page)
qed

theorem lists_respect_fund_grants_witness:
  "is_admin ex_db user_3
   \<and> \<not> is_admin ex_db user_1
   \<and> transactions_list ex_db ex_view user_3 (\<lambda>r. True) (\<lambda>r. 0 :: nat) None None = ex_view
   \<and> facturas_list ex_db ex_docs user_3 (\<lambda>f. True) f_monto_total 200 0 =
        [ex_factura fund_c ''0002'' 50, ex_factura fund_a ''0001'' 121]
   \<and> payments_list ex_db ex_docs user_3 (\<lambda>p. True) p_monto_total 200 0 =
        [ex_payment fund_a 10, ex_payment fund_c 20]
   \<and> map (\<lambda>x. snd (fst x)) (liquidaciones_list ex_db ex_docs user_3 (\<lambda>b. True) (\<lambda>b. 0 :: nat) 200 0) =
        [ex_liquidacion_a, ex_liquidacion_c]
   \<and> va_fund_id (hd (transactions_list ex_db ex_view user_1 (\<lambda>r. True) (\<lambda>r. 0 :: nat) None None))
        \<in> granted_funds ex_db user_1
   \<and> f_fund_id (hd (facturas_list ex_db ex_docs user_1 (\<lambda>f. True) f_monto_total 200 0))
        \<in> granted_funds ex_db user_1
   \<and> p_fund_id (hd (payments_list ex_db ex_docs user_1 (\<lambda>p. True) p_monto_total 200 0))
        \<in> granted_funds ex_db user_1
   \<and> r_fund_id (fst (fst (hd (liquidaciones_list ex_db ex_docs user_1 (\<lambda>b. True) (\<lambda>b. 0 :: nat) 200 0))))
        \<in> granted_funds ex_db user_1
   \<and> facturas_list ex_db ex_docs user_1 (\<lambda>f. True) f_monto_total 200 0 = [ex_factura fund_a ''0001'' 121]"
proof -
  have adm: "is_admin ex_db user_3" by code_simp
  have nadm: "\<not> is_admin ex_db user_1" by code_simp
  note t3 = lists_respect_fund_grants[where d = ex_db and userId = user_3 and v = ex_view
      and docs = ex_docs and ft = "\<lambda>r. True" and kt = "\<lambda>r. 0 :: nat" and limit = None and offset = None
      and ff = "\<lambda>f. True" and kf = f_monto_total and fp = "\<lambda>p. True" and kp = p_monto_total
      and fl = "\<lambda>b. True" and kl = "\<lambda>b. 0 :: nat" and n = 200 and m = 0]
  note t1 = lists_respect_fund_grants[where d = ex_db and userId = user_1 and v = ex_view
      and docs = ex_docs and ft = "\<lambda>r. True" and kt = "\<lambda>r. 0 :: nat" and limit = None and offset = None
      and ff = "\<lambda>f. True" and kf = f_monto_total and fp = "\<lambda>p. True" and kp = p_monto_total
      and fl = "\<lambda>b. True" and kl = "\<lambda>b. 0 :: nat" and n = 200 and m = 0]
  note all3 = mp[OF t3[THEN conjunct2, THEN conjunct1] adm]
  note only1 = mp[OF t1[THEN conjunct2, THEN conjunct2] nadm]
  have e1: "page 1000 0 (sort_key (\<lambda>r. 0 :: nat) ex_view) = ex_view"
    by code_simp
  have e2: "page 200 0 (sort_key f_monto_total (facturas ex_docs)) =
      [ex_factura fund_c ''0002'' 50, ex_factura fund_a ''0001'' 121]"
    by code_simp
  have e3: "page 200 0 (sort_key p_monto_total (payments ex_docs)) =
      [ex_payment fund_a 10, ex_payment fund_c 20]"
    by code_simp
  have e4: "map (\<lambda>x. snd (fst x))
      (page 200 0 (map (\<lambda>b. (b, total_final (l_ingreso_banco (snd b)) (l_impositivo (snd b)) (fst b)))
                          (sort_key (\<lambda>b. 0 :: nat) (resumen_join ex_docs)))) =
      [ex_liquidacion_a, ex_liquidacion_c]"
    by code_simp
  have m1: "hd (transactions_list ex_db ex_view user_1 (\<lambda>r. True) (\<lambda>r. 0 :: nat) None None)
        \<in> set (transactions_list ex_db ex_view user_1 (\<lambda>r. True) (\<lambda>r. 0 :: nat) None None)"
    by code_simp
  have m2: "hd (facturas_list ex_db ex_docs user_1 (\<lambda>f. True) f_monto_total 200 0)
        \<in> set (facturas_list ex_db ex_docs user_1 (\<lambda>f. True) f_monto_total 200 0)"
    by code_simp
  have m3: "hd (payments_list ex_db ex_docs user_1 (\<lambda>p. True) p_monto_total 200 0)
        \<in> set (payments_list ex_db ex_docs user_1 (\<lambda>p. True) p_monto_total 200 0)"
    by code_simp
  have m4: "hd (liquidaciones_list ex_db ex_docs user_1 (\<lambda>b. True) (\<lambda>b. 0 :: nat) 200 0)
        \<in> set (liquidaciones_list ex_db ex_docs user_1 (\<lambda>b. True) (\<lambda>b. 0 :: nat) 200 0)"
    by code_simp
  have f1: "facturas_list ex_db ex_docs user_1 (\<lambda>f. True) f_monto_total 200 0 = [ex_factura fund_a ''0001'' 121]"
    by code_simp
  from all3[THEN conjunct1] have a1: "transactions_list ex_db ex_view user_3 (\<lambda>r. True) (\<lambda>r. 0 :: nat) None None = ex_view"
    by (simp add: e1)
  from all3[THEN conjunct2, THEN conjunct1] have a2: "facturas_list ex_db ex_docs user_3 (\<lambda>f. True) f_monto_total 200 0 =
        [ex_factura fund_c ''0002'' 50, ex_factura fund_a ''0001'' 121]"
    by (simp add: e2)
  from all3[THEN conjunct2, THEN conjunct2, THEN conjunct1] have a3: "payments_list ex_db ex_docs user_3 (\<lambda>p. True) p_monto_total 200 0 =
        [ex_payment fund_a 10, ex_payment fund_c 20]"
    by (simp add: e3)
  from all3[THEN conjunct2, THEN conjunct2, THEN conjunct2] have a4: "map (\<lambda>x. snd (fst x)) (liquidaciones_list ex_db ex_docs user_3 (\<lambda>b. True) (\<lambda>b. 0 :: nat) 200 0) =
        [ex_liquidacion_a, ex_liquidacion_c]"
    by (simp add: e4)
  note b1 = bspec[OF only1[THEN conjunct1] m1]
  note b2 = bspec[OF only1[THEN conjunct2, THEN conjunct1] m2]
  note b3 = bspec[OF only1[THEN conjunct2, THEN conjunct2, THEN conjunct1] m3]
  note b4 = bspec[OF only1[THEN conjunct2, THEN conjunct2, THEN conjunct2] m4]
  from adm nadm a1 a2 a3 a4 b1 b2 b3 b4 f1 show ?thesis by (intro conjI)
qed

section \<open>The total of a settlement\<close>



end
